theory Spec2Isabelle
  imports Complex_Main "HOL-Library.FSet" "HOL-Library.Multiset"
begin

section \<open>Numbers and errors\<close>

text \<open>
  The program computes with Python floats and unbounded ints. Floats are modelled by
  \<^typ>\<open>real\<close> and ints by \<^typ>\<open>int\<close>; the arithmetic is exact, except in the
  line-of-sight test, where the rounding of the float operations decides the result and
  is modelled. A field that the program mixes into float arithmetic (sizes, speeds, ranges,
  timers) is a real; counters (health, damage, armor, ammo, pellets, money) are ints.
\<close>

datatype error = ZeroDivisionError | KeyError | ValueError | IndexError

section \<open>Vector2\<close>

record Vector2 =
  vec_x :: real
  vec_y :: real

definition Vector2_init :: "real \<Rightarrow> real \<Rightarrow> Vector2" where
  "Vector2_init a b = \<lparr>vec_x = a, vec_y = b\<rparr>"

definition add :: "Vector2 \<Rightarrow> Vector2 \<Rightarrow> Vector2" where
  "add u v = Vector2_init (vec_x u + vec_x v) (vec_y u + vec_y v)"

definition sub :: "Vector2 \<Rightarrow> Vector2 \<Rightarrow> Vector2" where
  "sub u v = Vector2_init (vec_x u - vec_x v) (vec_y u - vec_y v)"

definition mul :: "Vector2 \<Rightarrow> real \<Rightarrow> Vector2" where
  "mul u scalar = Vector2_init (vec_x u * scalar) (vec_y u * scalar)"

definition normalize :: "Vector2 \<Rightarrow> Vector2" where
  "normalize u =
     (let length = sqrt ((vec_x u)\<^sup>2 + (vec_y u)\<^sup>2)
      in if length > 0 then Vector2_init (vec_x u / length) (vec_y u / length)
         else Vector2_init 0 0)"

definition distance_to :: "Vector2 \<Rightarrow> Vector2 \<Rightarrow> real" where
  "distance_to u other = sqrt ((vec_x u - vec_x other)\<^sup>2 + (vec_y u - vec_y other)\<^sup>2)"

text \<open>\<open>math.atan2\<close> of the Python library, by its mathematical definition.\<close>

definition atan2 :: "real \<Rightarrow> real \<Rightarrow> real" where
  "atan2 b a =
     (if a > 0 then arctan (b / a)
      else if a < 0 then (if b \<ge> 0 then arctan (b / a) + pi else arctan (b / a) - pi)
      else if b > 0 then pi / 2
      else if b < 0 then - (pi / 2)
      else 0)"

definition angle_to :: "Vector2 \<Rightarrow> Vector2 \<Rightarrow> real" where
  "angle_to u other = atan2 (vec_y other - vec_y u) (vec_x other - vec_x u)"

section \<open>Bullet\<close>

type_synonym color = "nat \<times> nat \<times> nat"

definition BULLET_YELLOW :: color where
  "BULLET_YELLOW = (255, 255, 0)"

definition BULLET_RED :: color where
  "BULLET_RED = (255, 69, 0)"

record Bullet =
  pos :: Vector2
  velocity :: Vector2
  damage :: int
  color :: color
  size :: real
  lifetime :: real
  age :: real

definition Bullet_init :: "real \<Rightarrow> real \<Rightarrow> real \<Rightarrow> real \<Rightarrow> int \<Rightarrow> color \<Rightarrow> real \<Rightarrow> Bullet" where
  "Bullet_init a b angle speed dmg col sz =
     \<lparr>Bullet.pos = Vector2_init a b,
      Bullet.velocity = Vector2_init (cos angle * speed) (sin angle * speed),
      Bullet.damage = dmg, color = col, Bullet.size = sz, lifetime = 5, age = 0\<rparr>"

section \<open>Gun\<close>

record Gun =
  name :: string
  damage :: int
  fire_rate :: real
  bullet_speed :: real
  accuracy :: real
  ammo :: int
  pellets :: int
  fire_timer :: real

definition can_fire :: "Gun \<Rightarrow> bool" where
  "can_fire g \<longleftrightarrow> Gun.fire_timer g \<le> 0 \<and> (ammo g > 0 \<or> ammo g = - 1)"

text \<open>
  The angle of pellet \<open>i\<close>. For a single pellet the program draws
  \<open>random.uniform(-spread, spread)\<close>, which is \<open>-spread + 2 * spread * u\<close> for the unit
  draw \<open>u\<close> of the generator; \<open>rnd i\<close> is the unit draw made for pellet \<open>i\<close>.
\<close>

definition pellet_angle :: "Gun \<Rightarrow> real \<Rightarrow> (nat \<Rightarrow> real) \<Rightarrow> nat \<Rightarrow> real" where
  "pellet_angle g angle rnd i =
     (if pellets g > 1
      then (let spread_angle = 0.4
            in angle + (real i - real_of_int (pellets g - 1) / 2)
                 * (spread_angle / real_of_int (pellets g - 1)))
      else (let spread = (1.0 - accuracy g) * 0.3
            in angle + (- spread + (spread - (- spread)) * rnd i)))"

text \<open>
  \<open>Gun.fire\<close> returns the bullets and the gun as it is after the call. The division
  \<open>1.0 / self.fire_rate\<close> raises when the rate is zero.
\<close>

definition fire :: "Gun \<Rightarrow> real \<Rightarrow> real \<Rightarrow> real \<Rightarrow> (nat \<Rightarrow> real) \<Rightarrow> error + (Bullet list \<times> Gun)" where
  "fire g a b angle rnd =
     (if can_fire g then
        (if Gun.fire_rate g = 0 then Inl ZeroDivisionError
         else
           (let g1 = g\<lparr>Gun.fire_timer := 1.0 / Gun.fire_rate g\<rparr>;
                g2 = (if ammo g1 > 0 then g1\<lparr>ammo := ammo g1 - 1\<rparr> else g1)
            in Inr (map (\<lambda>i. Bullet_init a b (pellet_angle g2 angle rnd i)
                                 (bullet_speed g2) (Gun.damage g2) BULLET_YELLOW 4)
                        [0 ..< nat (pellets g2)],
                    g2)))
      else Inr ([], g))"

section \<open>Player\<close>

record Player =
  pos :: Vector2
  velocity :: Vector2
  size :: real
  speed :: real
  health :: int
  max_health :: int
  armor :: int
  dodge_speed :: real
  dodge_duration :: real
  dodge_cooldown :: real
  is_dodging :: bool
  dodge_timer :: real
  dodge_cooldown_timer :: real
  dodge_direction :: Vector2
  invulnerable :: bool
  damage_flash_timer :: real
  guns :: "Gun list"
  current_gun :: nat
  facing_angle :: real
  money :: int

text \<open>\<open>Player.take_damage\<close>: the returned flag and the player after the call.\<close>

definition take_damage :: "Player \<Rightarrow> int \<Rightarrow> bool \<times> Player" where
  "take_damage p amount =
     (if \<not> invulnerable p then
        (let p1 = (if armor p > 0 then p\<lparr>armor := armor p - 1\<rparr>
                   else p\<lparr>Player.health := max 0 (Player.health p - amount)\<rparr>)
         in (True, p1\<lparr>invulnerable := True, damage_flash_timer := 0.6\<rparr>))
      else (False, p))"

section \<open>Door\<close>

record Door =
  door_x :: real
  door_y :: real
  pos :: Vector2
  direction :: string
  is_open :: bool
  open_progress :: real
  open_speed :: real
  width :: real
  height :: real

definition Door_init :: "real \<Rightarrow> real \<Rightarrow> string \<Rightarrow> Door" where
  "Door_init a b dir =
     \<lparr>door_x = a, door_y = b, Door.pos = Vector2_init a b, direction = dir,
      is_open = False, open_progress = 0.0, open_speed = 3.0,
      Door.width = (if dir = ''horizontal'' then 32 else 16),
      Door.height = (if dir = ''horizontal'' then 16 else 32)\<rparr>"

definition Door_update :: "Door \<Rightarrow> real \<Rightarrow> bool \<Rightarrow> Door" where
  "Door_update d dt player_nearby =
     (let target_progress = (if player_nearby then 1.0 else 0.0);
          d1 = (if open_progress d < target_progress
                then d\<lparr>open_progress := min 1.0 (open_progress d + open_speed d * dt)\<rparr>
                else if open_progress d > target_progress
                then d\<lparr>open_progress := max 0.0 (open_progress d - open_speed d * dt)\<rparr>
                else d)
      in d1\<lparr>is_open := open_progress d1 > 0.5\<rparr>)"

definition example_door :: Door where
  "example_door = (Door_init 384 160 ''horizontal'')\<lparr>open_progress := 0.4\<rparr>"

definition example_gun :: Gun where
  "example_gun = \<lparr>name = ''Shotgun'', Gun.damage = 12, Gun.fire_rate = 1.5,
     bullet_speed = 180, accuracy = 0.7, ammo = 0, pellets = 5, Gun.fire_timer = 0.25\<rparr>"

definition example_player :: Player where
  "example_player = \<lparr>Player.pos = Vector2_init 200 200,
     Player.velocity = Vector2_init 0 0, Player.size = 8, Player.speed = 120,
     Player.health = 100, Player.max_health = 100, armor = 2, dodge_speed = 250,
     dodge_duration = 0.4, dodge_cooldown = 1.0, is_dodging = False, dodge_timer = 0,
     dodge_cooldown_timer = 0, dodge_direction = Vector2_init 0 0, invulnerable = False,
     damage_flash_timer = 0, guns = [], current_gun = 0, facing_angle = 0, money = 0\<rparr>"


text \<open>Python's \<open>int()\<close> on a float truncates toward zero.\<close>

definition py_int :: "real \<Rightarrow> int" where
  "py_int r = (if r \<ge> 0 then \<lfloor>r\<rfloor> else \<lceil>r\<rceil>)"

record Enemy =
  pos :: Vector2
  velocity :: Vector2
  size :: real
  health :: int
  max_health :: int
  speed :: real
  fire_timer :: real
  fire_rate :: real
  detection_range :: real
  damage :: int
  contact_damage :: int
  contact_damage_cooldown :: real
  last_contact_damage :: real
  enemy_type :: string
  state :: string
  state_timer :: real
  patrol_target :: Vector2
  circle_angle :: real
  circle_radius :: real
  retreat_timer :: real
  sight_blocked :: bool

text \<open>
  The values that \<open>random.randint\<close> (first and second call) and \<open>random.random\<close> return
  during one \<open>Enemy.update\<close>; no path through it makes more calls than these.
\<close>

record draws =
  randint_1 :: int
  randint_2 :: int
  random_u :: real

definition tile_of :: "Vector2 \<Rightarrow> int \<times> int" where
  "tile_of p = (\<lfloor>vec_x p / 16\<rfloor>, \<lfloor>vec_y p / 16\<rfloor>)"

subsection \<open>Line of sight in floating point\<close>

text \<open>
  \<open>check_line_of_sight\<close> decides by the tile that a computed point falls in, and that
  depends on the rounding of every operation on the way. It is therefore modelled with
  the rounding of Python's floats (IEEE binary64: 53 significant bits, round to nearest,
  ties to even); the exponent range is not modelled, the magnitudes of this program being
  far from overflow and underflow. \<open>fl x\<close> is the float nearest to the real \<open>x\<close>.
\<close>

definition round_half_even :: "real \<Rightarrow> int" where
  "round_half_even r =
     (let f = \<lfloor>r\<rfloor>; d = r - real_of_int f
      in if d < 1 / 2 then f else if d > 1 / 2 then f + 1
         else if even f then f else f + 1)"

definition fl :: "real \<Rightarrow> real" where
  "fl x =
     (if x = 0 then 0
      else (let e = \<lfloor>log 2 \<bar>x\<bar>\<rfloor>; u = 2 powr (real_of_int e - 52)
            in real_of_int (round_half_even (x / u)) * u))"

text \<open>
  \<open>Vector2.__add__\<close>, \<open>__sub__\<close>, \<open>__mul__\<close> and \<open>distance_to\<close> with every float operation
  rounded; \<open>x ** 2\<close> and \<open>math.sqrt\<close> return the float nearest to the exact result.
\<close>

definition add_fl :: "Vector2 \<Rightarrow> Vector2 \<Rightarrow> Vector2" where
  "add_fl u v = Vector2_init (fl (vec_x u + vec_x v)) (fl (vec_y u + vec_y v))"

definition sub_fl :: "Vector2 \<Rightarrow> Vector2 \<Rightarrow> Vector2" where
  "sub_fl u v = Vector2_init (fl (vec_x u - vec_x v)) (fl (vec_y u - vec_y v))"

definition mul_fl :: "Vector2 \<Rightarrow> real \<Rightarrow> Vector2" where
  "mul_fl u scalar = Vector2_init (fl (vec_x u * scalar)) (fl (vec_y u * scalar))"

definition distance_to_fl :: "Vector2 \<Rightarrow> Vector2 \<Rightarrow> real" where
  "distance_to_fl u other =
     fl (sqrt (fl (fl ((fl (vec_x u - vec_x other))\<^sup>2) + fl ((fl (vec_y u - vec_y other))\<^sup>2))))"

text \<open>
  The sampling loop: \<open>current_pos\<close> is moved by \<open>step_vec\<close> and its tile looked up,
  \<open>steps\<close> times or until a wall tile is met. \<open>x // 16\<close> is the floor of the exact quotient
  (the division by 16 is exact in binary).
\<close>

fun los_loop :: "nat \<Rightarrow> Vector2 \<Rightarrow> Vector2 \<Rightarrow> (int \<times> int) set \<Rightarrow> bool" where
  "los_loop 0 current_pos step_vec walls = False"
| "los_loop (Suc n) current_pos step_vec walls =
     (let current_pos' = add_fl current_pos step_vec
      in if tile_of current_pos' \<in> walls then True
         else los_loop n current_pos' step_vec walls)"

definition check_line_of_sight :: "Enemy \<Rightarrow> Vector2 \<Rightarrow> (int \<times> int) set \<Rightarrow> bool" where
  "check_line_of_sight e player_pos walls =
     (let direction = sub_fl player_pos (Enemy.pos e);
          distance = distance_to_fl direction (Vector2_init 0 0)
      in if distance = 0 \<or> distance < 8 then False
         else (let steps = py_int (fl (distance / 8))
               in if steps = 0 then False
                  else (let step_vec = mul_fl direction (fl (1.0 / real_of_int steps));
                            current_pos = Vector2_init (vec_x (Enemy.pos e)) (vec_y (Enemy.pos e))
                        in los_loop (nat steps) current_pos step_vec walls)))"


text \<open>
  A basic level-1 enemy as \<open>Enemy.__init__\<close> builds it at \<open>(a, b)\<close>, with the patrol target
  drawn at offset \<open>(30, -40)\<close>.
\<close>

definition Enemy_at :: "real \<Rightarrow> real \<Rightarrow> Enemy" where
  "Enemy_at a b = \<lparr>Enemy.pos = Vector2_init a b, Enemy.velocity = Vector2_init 0 0,
     Enemy.size = 8, Enemy.health = 30, Enemy.max_health = 30, Enemy.speed = 60,
     Enemy.fire_timer = 0, Enemy.fire_rate = 0.5, detection_range = 180, Enemy.damage = 8,
     contact_damage = 12, contact_damage_cooldown = 2, last_contact_damage = 0,
     enemy_type = ''basic'', state = ''patrol'', state_timer = 0,
     patrol_target = Vector2_init (a + 30) (b - 40), circle_angle = 0, circle_radius = 80,
     retreat_timer = 0, sight_blocked = False\<rparr>"

definition rusher_behavior :: "Enemy \<Rightarrow> Vector2 \<Rightarrow> real \<Rightarrow> Enemy" where
  "rusher_behavior e player_pos distance =
     (if distance > 30 then
        (let direction = normalize (sub player_pos (Enemy.pos e))
         in e\<lparr>Enemy.velocity := mul direction (Enemy.speed e)\<rparr>)
      else
        (let e1 = e\<lparr>circle_angle := circle_angle e + 0.05\<rparr>;
             circle_pos = add player_pos
                (Vector2_init (cos (circle_angle e1) * 25) (sin (circle_angle e1) * 25));
             direction = normalize (sub circle_pos (Enemy.pos e1))
         in e1\<lparr>Enemy.velocity := mul (mul direction (Enemy.speed e1)) 0.7\<rparr>))"

definition sniper_behavior :: "Enemy \<Rightarrow> Vector2 \<Rightarrow> real \<Rightarrow> Enemy" where
  "sniper_behavior e player_pos distance =
     (if distance > 120 then
        (let direction = normalize (sub player_pos (Enemy.pos e))
         in e\<lparr>Enemy.velocity := mul (mul direction (Enemy.speed e)) 0.6\<rparr>)
      else if distance < 80 then
        (let direction = normalize (sub (Enemy.pos e) player_pos)
         in e\<lparr>Enemy.velocity := mul (mul direction (Enemy.speed e)) 0.8\<rparr>)
      else
        (let perpendicular = normalize (Vector2_init (- vec_y (Enemy.velocity e))
                                                      (vec_x (Enemy.velocity e)));
             flip = state_timer e > 2.0;
             e1 = (if flip then e\<lparr>state_timer := 0\<rparr> else e);
             perpendicular' = (if flip then mul perpendicular (- 1) else perpendicular)
         in e1\<lparr>Enemy.velocity := mul (mul perpendicular' (Enemy.speed e1)) 0.4\<rparr>))"

definition navigate_around_obstacles :: "Enemy \<Rightarrow> Vector2 \<Rightarrow> draws \<Rightarrow> Enemy" where
  "navigate_around_obstacles e player_pos rnd =
     (let direction_to_player = normalize (sub player_pos (Enemy.pos e));
          left_direction = Vector2_init (- vec_y direction_to_player) (vec_x direction_to_player);
          right_direction = Vector2_init (vec_y direction_to_player) (- vec_x direction_to_player)
      in if random_u rnd < 0.5
         then e\<lparr>Enemy.velocity := mul (mul left_direction (Enemy.speed e)) 0.6\<rparr>
         else e\<lparr>Enemy.velocity := mul (mul right_direction (Enemy.speed e)) 0.6\<rparr>)"

definition smart_chase_behavior :: "Enemy \<Rightarrow> Vector2 \<Rightarrow> real \<Rightarrow> draws \<Rightarrow> Enemy" where
  "smart_chase_behavior e player_pos distance rnd =
     (if sight_blocked e then navigate_around_obstacles e player_pos rnd
      else if distance > 100 then
        (let predicted_pos = add player_pos
                (Vector2_init (real_of_int (randint_1 rnd)) (real_of_int (randint_2 rnd)));
             direction = normalize (sub predicted_pos (Enemy.pos e))
         in e\<lparr>Enemy.velocity := mul direction (Enemy.speed e)\<rparr>)
      else if distance > 50 then
        (let angle_to_player = angle_to (Enemy.pos e) player_pos;
             circle_angle = angle_to_player + pi / 2 + sin (state_timer e * 2) * 0.5;
             direction = Vector2_init (cos circle_angle) (sin circle_angle)
         in e\<lparr>Enemy.velocity := mul (mul direction (Enemy.speed e)) 0.7\<rparr>)
      else
        (let direction = normalize (sub (Enemy.pos e) player_pos)
         in e\<lparr>Enemy.velocity := mul (mul direction (Enemy.speed e)) 0.5\<rparr>))"

definition patrol_behavior :: "Enemy \<Rightarrow> real \<Rightarrow> draws \<Rightarrow> Enemy" where
  "patrol_behavior e dt rnd =
     (let direction = sub (patrol_target e) (Enemy.pos e)
      in if distance_to direction (Vector2_init 0 0) < 20
         then e\<lparr>patrol_target := add (Enemy.pos e)
                  (Vector2_init (real_of_int (randint_1 rnd)) (real_of_int (randint_2 rnd)))\<rparr>
         else e\<lparr>Enemy.velocity := mul (mul (normalize direction) (Enemy.speed e)) 0.3\<rparr>)"

definition update_ai_behavior ::
  "Enemy \<Rightarrow> real \<Rightarrow> Vector2 \<Rightarrow> (int \<times> int) set \<Rightarrow> real \<Rightarrow> draws \<Rightarrow> Enemy" where
  "update_ai_behavior e dt player_pos walls distance_to_player rnd =
     (let e1 = e\<lparr>sight_blocked := check_line_of_sight e player_pos walls\<rparr>
      in if enemy_type e1 = ''rusher'' then rusher_behavior e1 player_pos distance_to_player
         else if enemy_type e1 = ''sniper'' then sniper_behavior e1 player_pos distance_to_player
         else smart_chase_behavior e1 player_pos distance_to_player rnd)"

definition Enemy_update :: "Enemy \<Rightarrow> real \<Rightarrow> Vector2 \<Rightarrow> (int \<times> int) set \<Rightarrow> draws \<Rightarrow> Enemy" where
  "Enemy_update e dt player_pos walls rnd =
     (let e1 = e\<lparr>state_timer := state_timer e + dt,
                 last_contact_damage := last_contact_damage e + dt\<rparr>;
          distance_to_player = distance_to (Enemy.pos e1) player_pos;
          e2 = (if distance_to_player < detection_range e1
                then update_ai_behavior e1 dt player_pos walls distance_to_player rnd
                else patrol_behavior e1 dt rnd)
      in e2\<lparr>Enemy.pos := add (Enemy.pos e2) (mul (Enemy.velocity e2) dt),
            Enemy.fire_timer := Enemy.fire_timer e2 + dt\<rparr>)"

definition example_draws :: draws where
  "example_draws = \<lparr>randint_1 = 7, randint_2 = - 3, random_u = 0.25\<rparr>"


section \<open>Room\<close>

record Room =
  width :: int
  height :: int
  level :: int
  enemies :: "Enemy list"
  player_bullets :: "Bullet list"
  enemy_bullets :: "Bullet list"
  cleared :: bool
  walls :: "(int \<times> int) set"
  floor_tiles :: "(int \<times> int) set"

text \<open>The perimeter that \<open>generate_room\<close> and \<open>generate_hazard_room\<close> put into \<open>walls\<close>.\<close>

definition perimeter_walls :: "int \<Rightarrow> int \<Rightarrow> (int \<times> int) set" where
  "perimeter_walls w h =
     {(a, b). (0 \<le> a \<and> a < w \<and> (b = 0 \<or> b = h - 1)) \<or> (0 \<le> b \<and> b < h \<and> (a = 0 \<or> a = w - 1))}"

subsection \<open>Tile push-out\<close>

text \<open>
  The bounds check of \<open>validate_position\<close> on one coordinate: \<open>if v < margin: v = margin
  elif v > extent - margin: v = extent - margin\<close>.
\<close>

definition clamp_to_room :: "real \<Rightarrow> real \<Rightarrow> real \<Rightarrow> real" where
  "clamp_to_room v margin extent =
     (if v < margin then margin else if v > extent - margin then extent - margin else v)"

text \<open>
  One iteration of the 3x3 scan: the accumulator is \<open>(push_x, push_y, collision_count)\<close>.
  A wall closer than 0.1 is counted but pushes nothing.
\<close>

definition check_tile ::
  "(int \<times> int) set \<Rightarrow> Vector2 \<Rightarrow> real \<Rightarrow> int \<Rightarrow> int \<Rightarrow> int \<times> int
     \<Rightarrow> real \<times> real \<times> nat \<Rightarrow> real \<times> real \<times> nat" where
  "check_tile ws p sz tile_x tile_y d acc =
     (case d of (dx, dy) \<Rightarrow> case acc of (push_x, push_y, collision_count) \<Rightarrow>
       (let check_x = tile_x + dx; check_y = tile_y + dy
        in if (check_x, check_y) \<in> ws then
             (let wall_center_x = real_of_int (check_x * 16 + 8);
                  wall_center_y = real_of_int (check_y * 16 + 8);
                  wall_distance = distance_to (Vector2_init wall_center_x wall_center_y) p;
                  required_distance = sz / 2 + 8
              in if wall_distance < required_distance then
                   (if wall_distance > 0.1 then
                      (let push_dir = normalize (sub p (Vector2_init wall_center_x wall_center_y));
                           push_strength = required_distance - wall_distance + 1
                       in (push_x + vec_x push_dir * push_strength,
                           push_y + vec_y push_dir * push_strength,
                           collision_count + 1))
                    else (push_x, push_y, collision_count + 1))
                 else acc)
           else acc))"

definition neighbourhood :: "(int \<times> int) list" where
  "neighbourhood = concat (map (\<lambda>dx. map (\<lambda>dy. (dx, dy)) [- 1, 0, 1]) [- 1, 0, 1])"

definition scan_walls :: "(int \<times> int) set \<Rightarrow> Vector2 \<Rightarrow> real \<Rightarrow> real \<times> real \<times> nat" where
  "scan_walls ws p sz =
     (let tile_x = \<lfloor>vec_x p / 16\<rfloor>; tile_y = \<lfloor>vec_y p / 16\<rfloor>
      in fold (check_tile ws p sz tile_x tile_y) neighbourhood (0, 0, 0))"

text \<open>\<open>Room.validate_position\<close> changes \<open>pos\<close> in place; the model returns the new position.\<close>

definition validate_position :: "'a Room_scheme \<Rightarrow> Vector2 \<Rightarrow> real \<Rightarrow> Vector2" where
  "validate_position r p sz =
     (let margin = sz / 2 + 2;
          room_width = real_of_int (Room.width r * 16);
          room_height = real_of_int (Room.height r * 16);
          p1 = p\<lparr>vec_x := clamp_to_room (vec_x p) margin room_width\<rparr>;
          p2 = p1\<lparr>vec_y := clamp_to_room (vec_y p1) margin room_height\<rparr>
      in case scan_walls (walls r) p2 sz of (push_x, push_y, collision_count) \<Rightarrow>
           if collision_count > 0 then
             (let p3 = p2\<lparr>vec_x := vec_x p2 + push_x / real collision_count,
                          vec_y := vec_y p2 + push_y / real collision_count\<rparr>;
                  p4 = p3\<lparr>vec_x := clamp_to_room (vec_x p3) margin room_width\<rparr>
              in p4\<lparr>vec_y := clamp_to_room (vec_y p4) margin room_height\<rparr>)
           else p2)"

definition validate_enemy_position :: "'a Room_scheme \<Rightarrow> Enemy \<Rightarrow> Enemy" where
  "validate_enemy_position r e = e\<lparr>Enemy.pos := validate_position r (Enemy.pos e) (Enemy.size e)\<rparr>"

subsection \<open>Enemy separation\<close>

text \<open>The body of the separation loops of \<open>Room.update\<close> for the pair \<open>(enemy1, enemy2)\<close>.\<close>

definition separate_pair :: "'a Room_scheme \<Rightarrow> Enemy \<Rightarrow> Enemy \<Rightarrow> Enemy \<times> Enemy" where
  "separate_pair r enemy1 enemy2 =
     (let distance = distance_to (Enemy.pos enemy1) (Enemy.pos enemy2);
          min_distance = (Enemy.size enemy1 + Enemy.size enemy2) / 2.0 + 5
      in if distance < min_distance \<and> distance > 0.1 then
           (let push_direction = normalize (sub (Enemy.pos enemy1) (Enemy.pos enemy2));
                push_strength = (min_distance - distance) * 0.5;
                enemy1' = enemy1\<lparr>Enemy.pos :=
                   add (Enemy.pos enemy1) (mul (mul push_direction push_strength) 0.5)\<rparr>;
                enemy2' = enemy2\<lparr>Enemy.pos :=
                   sub (Enemy.pos enemy2) (mul (mul push_direction push_strength) 0.5)\<rparr>
            in (validate_enemy_position r enemy1', validate_enemy_position r enemy2'))
         else (enemy1, enemy2))"

text \<open>
  The two loops, over the indices \<open>i\<close> and \<open>j > i\<close> of \<open>self.enemies\<close>. The enemies are
  objects changed in place, so the list is updated at both indices after each pair; the
  list holds each enemy object once.
\<close>

fun separation_inner :: "'a Room_scheme \<Rightarrow> nat \<Rightarrow> nat list \<Rightarrow> Enemy list \<Rightarrow> Enemy list" where
  "separation_inner r i [] es = es"
| "separation_inner r i (j # js) es =
     (case separate_pair r (es ! i) (es ! j) of
        (enemy1, enemy2) \<Rightarrow> separation_inner r i js (es[i := enemy1, j := enemy2]))"

definition enemy_separation :: "'a Room_scheme \<Rightarrow> Enemy list \<Rightarrow> Enemy list" where
  "enemy_separation r es =
     fold (\<lambda>i es'. separation_inner r i [Suc i ..< length es'] es') [0 ..< length es] es"

text \<open>
  The index pairs in the order the two loops visit them, and what the loop body does to
  the list for one pair.
\<close>

definition index_pairs :: "nat \<Rightarrow> (nat \<times> nat) list" where
  "index_pairs n = concat (map (\<lambda>i. map (\<lambda>j. (i, j)) [Suc i ..< n]) [0 ..< n])"

definition pair_step :: "'a Room_scheme \<Rightarrow> nat \<times> nat \<Rightarrow> Enemy list \<Rightarrow> Enemy list" where
  "pair_step r ij es =
     (case ij of (i, j) \<Rightarrow>
        case separate_pair r (es ! i) (es ! j) of
          (enemy1, enemy2) \<Rightarrow> es[i := enemy1, j := enemy2])"

definition example_room :: Room where
  "example_room = \<lparr>Room.width = 25, Room.height = 20, Room.level = 1, enemies = [],
     player_bullets = [], enemy_bullets = [], Room.cleared = False,
     walls = perimeter_walls 25 20, floor_tiles = {}\<rparr>"

definition two_wall_room :: Room where
  "two_wall_room = example_room\<lparr>walls := {(5, 5), (6, 5)}\<rparr>"


subsection \<open>Player bullets against enemies\<close>

text \<open>\<open>Enemy.take_damage\<close>: the returned flag (dead) and the enemy after the call.\<close>

definition Enemy_take_damage :: "Enemy \<Rightarrow> int \<Rightarrow> bool \<times> Enemy" where
  "Enemy_take_damage e amount =
     (let e' = e\<lparr>Enemy.health := max 0 (Enemy.health e - amount)\<rparr>
      in (Enemy.health e' \<le> 0, e'))"

text \<open>
  What the first loop of \<open>Room.check_collisions\<close> reads and writes: the room, the player
  (for the money) and the kill counter of the game instance, \<open>None\<close> when the call has no
  game instance.
\<close>

record collision_state =
  room :: Room
  player :: Player
  enemies_killed :: "int option"

definition bullet_hits :: "Bullet \<Rightarrow> Enemy \<Rightarrow> bool" where
  "bullet_hits bullet enemy \<longleftrightarrow>
     distance_to (Bullet.pos bullet) (Enemy.pos enemy) < Enemy.size enemy + Bullet.size bullet"

text \<open>
  The body of the hit branch, for the enemy at index \<open>i\<close> of \<open>self.enemies\<close>; \<open>reward\<close> is
  the value \<open>random.randint(2, 8)\<close> returns if it is called. Objects are compared by
  identity and the list holds each enemy object once, so \<open>self.enemies.remove(enemy)\<close>
  removes index \<open>i\<close>.
\<close>

definition resolve_hit :: "int \<Rightarrow> Bullet \<Rightarrow> nat \<Rightarrow> collision_state \<Rightarrow> collision_state" where
  "resolve_hit reward bullet i s =
     (let r = room s;
          enemy = enemies r ! i;
          s1 = (case Enemy_take_damage enemy (Bullet.damage bullet) of
                  (dead, enemy') \<Rightarrow>
                    if dead then
                      s\<lparr>room := r\<lparr>enemies := take i (enemies r) @ drop (Suc i) (enemies r)\<rparr>,
                        player := (player s)\<lparr>money := money (player s) + reward\<rparr>,
                        enemies_killed := map_option (\<lambda>k. k + 1) (enemies_killed s)\<rparr>
                    else s\<lparr>room := r\<lparr>enemies := (enemies r)[i := enemy']\<rparr>\<rparr>);
          r1 = room s1
      in if bullet \<in> set (player_bullets r1)
         then s1\<lparr>room := r1\<lparr>player_bullets := remove1 bullet (player_bullets r1)\<rparr>\<rparr>
         else s1)"

text \<open>
  The inner loop over the copy \<open>self.enemies[:]\<close>, whose first element is at index \<open>i\<close>
  of the list: the first enemy hit is resolved and the loop is left (\<open>break\<close>).
\<close>

fun bullet_vs_enemies :: "int \<Rightarrow> Bullet \<Rightarrow> Enemy list \<Rightarrow> nat \<Rightarrow> collision_state \<Rightarrow> collision_state" where
  "bullet_vs_enemies reward bullet [] i s = s"
| "bullet_vs_enemies reward bullet (enemy # rest) i s =
     (if bullet_hits bullet enemy then resolve_hit reward bullet i s
      else bullet_vs_enemies reward bullet rest (Suc i) s)"

text \<open>
  The outer loop over the copy \<open>self.player_bullets[:]\<close>; \<open>rnd k\<close> is the reward drawn
  while the \<open>k\<close>-th bullet of the copy is handled.
\<close>

fun player_bullets_loop :: "(nat \<Rightarrow> int) \<Rightarrow> Bullet list \<Rightarrow> nat \<Rightarrow> collision_state \<Rightarrow> collision_state" where
  "player_bullets_loop rnd [] k s = s"
| "player_bullets_loop rnd (bullet # rest) k s =
     player_bullets_loop rnd rest (Suc k)
       (bullet_vs_enemies (rnd k) bullet (enemies (room s)) 0 s)"

definition player_bullets_vs_enemies :: "(nat \<Rightarrow> int) \<Rightarrow> collision_state \<Rightarrow> collision_state" where
  "player_bullets_vs_enemies rnd s = player_bullets_loop rnd (player_bullets (room s)) 0 s"

definition example_bullet :: Bullet where
  "example_bullet = Bullet_init 100 100 0 200 8 BULLET_YELLOW 4"

text \<open>The health left in the room and the damage carried by the player's bullets.\<close>

definition total_health :: "collision_state \<Rightarrow> int" where
  "total_health s = sum_list (map Enemy.health (enemies (room s)))"

definition total_damage :: "collision_state \<Rightarrow> int" where
  "total_damage s = sum_list (map Bullet.damage (player_bullets (room s)))"

definition example_collision :: collision_state where
  "example_collision =
     \<lparr>room = example_room\<lparr>enemies := [Enemy_at 100 100, Enemy_at 102 100],
                            player_bullets := [example_bullet]\<rparr>,
      player = example_player, enemies_killed = Some 0\<rparr>"

section \<open>HazardRoom\<close>

text \<open>
  The fields that no modelled method reads (\<open>moving_platforms\<close>, \<open>entrance_door\<close>,
  \<open>exit_door\<close>) are left out.
\<close>

record HazardRoom = Room +
  ditches :: "(int \<times> int) set"
  bridges :: "(int \<times> int) set"
  spikes :: "(int \<times> int) set"
  lava_tiles :: "(int \<times> int) set"
  challenge_complete :: bool

definition check_hazard_damage :: "HazardRoom \<Rightarrow> Player \<Rightarrow> bool \<times> Player" where
  "check_hazard_damage h p =
     (let player_tile_x = \<lfloor>vec_x (Player.pos p) / 16\<rfloor>;
          player_tile_y = \<lfloor>vec_y (Player.pos p) / 16\<rfloor>
      in if invulnerable p \<or> is_dodging p then (False, p)
         else if (player_tile_x, player_tile_y) \<in> ditches h
         then (True, p\<lparr>Player.health := 0\<rparr>)
         else if (player_tile_x, player_tile_y) \<in> spikes h
         then (True, snd (take_damage p 20))
         else if (player_tile_x, player_tile_y) \<in> lava_tiles h
         then (True, snd (take_damage p 15))
         else (False, p))"

definition example_hazard_room :: HazardRoom where
  "example_hazard_room = \<lparr>Room.width = 25, Room.height = 20, Room.level = 1, enemies = [],
     player_bullets = [], enemy_bullets = [], Room.cleared = False,
     walls = perimeter_walls 25 20, floor_tiles = {(a, b). 2 \<le> a \<and> a < 6 \<and> 2 \<le> b \<and> b < 5},
     ditches = {(a, b). 6 \<le> a \<and> a < 10 \<and> 2 \<le> b \<and> b < 18}, bridges = {}, spikes = {},
     lava_tiles = {}, challenge_complete = False\<rparr>"


section \<open>MultiRoomSystem\<close>

text \<open>
  The controller owns the rooms, the doors, the wave tables and the set of cleared rooms.
  Its tick calls into the simulation of the current room (\<open>Room.update\<close>,
  \<open>HazardRoom.update\<close>, \<open>spawn_enemy_wave\<close>); those calls change the room object and
  nothing of the controller. The model keeps of each room its class, and takes what the
  controller reads back from the current room during one tick as the tick's
  \<open>observation\<close>.
\<close>

datatype room_class = CombatRoom | HazardRoomClass | BossRoomClass

record Wave =
  enemy_count :: int
  enemy_types :: "string list"
  weights :: "int list"
  spawned :: bool
  cleared :: bool

record observation =
  challenge_complete_seen :: bool
  enemies_seen :: nat
  enemies_placed :: nat

text \<open>
  \<open>challenge_complete_seen\<close>: \<open>current_room.challenge_complete\<close> after the room's update;
  \<open>enemies_seen\<close>: \<open>len(current_room.enemies)\<close> when \<open>handle_enemy_waves\<close> starts;
  \<open>enemies_placed\<close>: the number of enemies \<open>spawn_enemy_wave\<close> manages to place if it is
  called (its placement is random and may fail).
\<close>

record MultiRoomSystem =
  level :: int
  rooms :: "string \<rightharpoonup> room_class"
  current_room_id :: string
  doors :: "(string \<times> Door) list"
  room_connections :: "string \<rightharpoonup> string list"
  rooms_cleared :: "string fset"
  total_rooms :: int
  teleporter_active :: bool
  enemy_waves :: "string \<rightharpoonup> Wave list"
  current_wave :: "string \<rightharpoonup> nat"

subsection \<open>Construction\<close>

definition generate_enemy_waves :: "int \<Rightarrow> Wave list" where
  "generate_enemy_waves lvl =
     map (\<lambda>wave. \<lparr>enemy_count = (3 + lvl) + wave * 2,
                  enemy_types = [''basic'', ''aggressive'', ''sniper'', ''rusher''],
                  weights = (if wave = 0 then [60, 20, 15, 5] else [30, 35, 25, 10]),
                  spawned = False, Wave.cleared = False\<rparr>) [0, 1]"

text \<open>The room configurations of a level: id, connections, class.\<close>

definition room_configs :: "int \<Rightarrow> (string \<times> string list \<times> room_class) list" where
  "room_configs lvl =
     (if lvl = 1 then
        [(''room_1'', [''room_2''], CombatRoom),
         (''room_2'', [''room_1'', ''hazard_room''], CombatRoom),
         (''hazard_room'', [''room_2'', ''boss_room''], HazardRoomClass),
         (''boss_room'', [''hazard_room''], BossRoomClass)]
      else if lvl = 2 then
        [(''room_1'', [''room_2''], CombatRoom),
         (''room_2'', [''room_1'', ''room_3''], CombatRoom),
         (''room_3'', [''room_2'', ''hazard_room''], CombatRoom),
         (''hazard_room'', [''room_3'', ''boss_room''], HazardRoomClass),
         (''boss_room'', [''hazard_room''], BossRoomClass)]
      else if lvl = 3 then
        [(''room_1'', [''room_2''], CombatRoom),
         (''room_2'', [''room_1'', ''room_3''], CombatRoom),
         (''room_3'', [''room_2'', ''hazard_room''], CombatRoom),
         (''hazard_room'', [''room_3'', ''room_4''], HazardRoomClass),
         (''room_4'', [''hazard_room'', ''boss_room''], CombatRoom),
         (''boss_room'', [''room_4''], BossRoomClass)]
      else
        [(''room_1'', [''room_2''], CombatRoom),
         (''room_2'', [''room_1'', ''room_3''], CombatRoom),
         (''room_3'', [''room_2'', ''hazard_room''], CombatRoom),
         (''hazard_room'', [''room_3'', ''room_4''], HazardRoomClass),
         (''room_4'', [''hazard_room'', ''room_5''], CombatRoom),
         (''room_5'', [''room_4'', ''boss_room''], CombatRoom),
         (''boss_room'', [''room_5''], BossRoomClass)])"

definition door_positions :: "int \<Rightarrow> (string \<times> string) list" where
  "door_positions lvl =
     (if lvl = 1 then
        [(''room_1'', ''room_2''), (''room_2'', ''hazard_room''), (''hazard_room'', ''boss_room'')]
      else if lvl = 2 then
        [(''room_1'', ''room_2''), (''room_2'', ''room_3''), (''room_3'', ''hazard_room''),
         (''hazard_room'', ''boss_room'')]
      else if lvl = 3 then
        [(''room_1'', ''room_2''), (''room_2'', ''room_3''), (''room_3'', ''hazard_room''),
         (''hazard_room'', ''room_4''), (''room_4'', ''boss_room'')]
      else
        [(''room_1'', ''room_2''), (''room_2'', ''room_3''), (''room_3'', ''hazard_room''),
         (''hazard_room'', ''room_4''), (''room_4'', ''room_5''), (''room_5'', ''boss_room'')])"

text \<open>Every door of every level is horizontal, at \<open>(24 * 16, 10 * 16)\<close>.\<close>

definition generate_doors :: "int \<Rightarrow> (string \<times> Door) list" where
  "generate_doors lvl =
     map (\<lambda>(room1, room2). (room1 @ ''_'' @ room2, Door_init (24 * 16) (10 * 16) ''horizontal''))
       (door_positions lvl)"

definition MultiRoomSystem_init :: "int \<Rightarrow> MultiRoomSystem" where
  "MultiRoomSystem_init lvl =
     \<lparr>MultiRoomSystem.level = lvl,
      rooms = map_of (map (\<lambda>(room_id, connections, cls). (room_id, cls)) (room_configs lvl)),
      current_room_id = ''room_1'',
      doors = generate_doors lvl,
      room_connections =
        map_of (map (\<lambda>(room_id, connections, cls). (room_id, connections)) (room_configs lvl)),
      rooms_cleared = {||},
      total_rooms = (if lvl = 1 then 3 else if lvl = 2 then 4 else if lvl = 3 then 5 else 6),
      teleporter_active = False,
      enemy_waves =
        map_of (map (\<lambda>(room_id, connections, cls). (room_id, generate_enemy_waves lvl))
                  (filter (\<lambda>(room_id, connections, cls). cls = CombatRoom) (room_configs lvl))),
      current_wave =
        map_of (map (\<lambda>(room_id, connections, cls). (room_id, 0))
                  (filter (\<lambda>(room_id, connections, cls). cls = CombatRoom) (room_configs lvl)))\<rparr>"

subsection \<open>Waves\<close>

text \<open>
  \<open>handle_enemy_waves\<close>. After a spawn the room holds \<open>enemies_placed\<close> enemies. The
  statement \<open>self.current_wave[self.current_room_id] += 1\<close> raises when the key is missing.
\<close>

definition handle_enemy_waves :: "MultiRoomSystem \<Rightarrow> observation \<Rightarrow> error + MultiRoomSystem" where
  "handle_enemy_waves s obs =
     (let room_waves = (case enemy_waves s (current_room_id s) of None \<Rightarrow> [] | Some w \<Rightarrow> w);
          current_wave_idx = (case current_wave s (current_room_id s) of None \<Rightarrow> 0 | Some i \<Rightarrow> i)
      in if current_wave_idx < length room_waves then
           (let wave = room_waves ! current_wave_idx;
                spawn_now = (\<not> spawned wave \<and> enemies_seen obs = 0);
                wave1 = (if spawn_now then wave\<lparr>spawned := True\<rparr> else wave);
                enemies_now = (if spawn_now then enemies_placed obs else enemies_seen obs)
            in if spawned wave1 \<and> enemies_now = 0 \<and> \<not> Wave.cleared wave1 then
                 (case current_wave s (current_room_id s) of
                    None \<Rightarrow> Inl KeyError
                  | Some i \<Rightarrow>
                      (let s1 = s\<lparr>enemy_waves := (enemy_waves s)(current_room_id s \<mapsto>
                                     room_waves[current_wave_idx := wave1\<lparr>Wave.cleared := True\<rparr>]),
                                  current_wave := (current_wave s)(current_room_id s \<mapsto> i + 1)\<rparr>
                       in if i + 1 \<ge> length room_waves
                          then Inr (s1\<lparr>rooms_cleared := finsert (current_room_id s1) (rooms_cleared s1)\<rparr>)
                          else Inr s1))
               else Inr (s\<lparr>enemy_waves := (enemy_waves s)(current_room_id s \<mapsto>
                               room_waves[current_wave_idx := wave1])\<rparr>))
         else Inr s)"

subsection \<open>Room transitions\<close>

text \<open>\<open>s.split('_', 1)\<close> and \<open>s.startswith(prefix)\<close> of Python strings.\<close>

definition split_first :: "string \<Rightarrow> string list" where
  "split_first s =
     (if CHR ''_'' \<in> set s
      then [takeWhile (\<lambda>c. c \<noteq> CHR ''_'') s, tl (dropWhile (\<lambda>c. c \<noteq> CHR ''_'') s)]
      else [s])"

definition startswith :: "string \<Rightarrow> string \<Rightarrow> bool" where
  "startswith s prefix \<longleftrightarrow> take (length prefix) s = prefix"

text \<open>
  The target room that \<open>check_room_transitions\<close> computes from a door id. Unpacking a
  split without separator raises \<open>ValueError\<close>, indexing it raises \<open>IndexError\<close>.
\<close>

definition door_target :: "string \<Rightarrow> string \<Rightarrow> error + string" where
  "door_target door_id current =
     (case split_first door_id of
        [room1, room2] \<Rightarrow>
          (if startswith room2 ''room'' then
             (case split_first room2 of
                [head, rest] \<Rightarrow> Inr (if current = room1 then ''room_'' @ rest else room1)
              | _ \<Rightarrow> Inl IndexError)
           else Inr (if current = room1 then room2 else room1))
      | _ \<Rightarrow> Inl ValueError)"

definition transition_to_room ::
  "MultiRoomSystem \<Rightarrow> string \<Rightarrow> Vector2 \<Rightarrow> MultiRoomSystem \<times> Vector2" where
  "transition_to_room s target_room_id player_pos =
     (if target_room_id \<noteq> current_room_id s then
        (s\<lparr>current_room_id := target_room_id\<rparr>,
         if target_room_id = ''boss_room'' then Vector2_init 240 320
         else if target_room_id = ''hazard_room'' then Vector2_init 64 48
         else Vector2_init 200 200)
      else (s, player_pos))"

fun check_room_transitions ::
  "(string \<times> Door) list \<Rightarrow> MultiRoomSystem \<Rightarrow> Vector2 \<Rightarrow> error + (MultiRoomSystem \<times> Vector2)" where
  "check_room_transitions [] s player_pos = Inr (s, player_pos)"
| "check_room_transitions ((door_id, door) # rest) s player_pos =
     (if is_open door then
        (let door_center_x = door_x door + real_of_int \<lfloor>Door.width door / 2\<rfloor>;
             door_center_y = door_y door + real_of_int \<lfloor>Door.height door / 2\<rfloor>
         in if distance_to (Vector2_init door_center_x door_center_y) player_pos < 20 then
              (case door_target door_id (current_room_id s) of
                 Inl e \<Rightarrow> Inl e
               | Inr target_room \<Rightarrow>
                   if target_room \<in> dom (rooms s) then
                     (case transition_to_room s target_room player_pos of
                        (s', player_pos') \<Rightarrow> check_room_transitions rest s' player_pos')
                   else check_room_transitions rest s player_pos)
            else check_room_transitions rest s player_pos)
      else check_room_transitions rest s player_pos)"

subsection \<open>The tick\<close>

text \<open>
  \<open>MultiRoomSystem.update\<close>: the controller and the player's position after the tick.
  \<open>get_current_room\<close> raises \<open>KeyError\<close> when the current id is no key of \<open>rooms\<close>.
\<close>

definition MultiRoomSystem_update ::
  "MultiRoomSystem \<Rightarrow> real \<Rightarrow> Vector2 \<Rightarrow> observation \<Rightarrow> error + (MultiRoomSystem \<times> Vector2)" where
  "MultiRoomSystem_update s dt player_pos obs =
     (case rooms s (current_room_id s) of
        None \<Rightarrow> Inl KeyError
      | Some current_room \<Rightarrow>
          (let s1 = s\<lparr>doors := map (\<lambda>(door_id, door).
                          (door_id, Door_update door dt (distance_to (Door.pos door) player_pos < 50)))
                        (doors s)\<rparr>;
               handled =
                 (if current_room = HazardRoomClass then
                    Inr (if challenge_complete_seen obs \<and> current_room_id s1 |\<notin>| rooms_cleared s1
                         then s1\<lparr>rooms_cleared := finsert (current_room_id s1) (rooms_cleared s1)\<rparr>
                         else s1)
                  else if current_room_id s1 \<noteq> ''boss_room'' then handle_enemy_waves s1 obs
                  else Inr s1)
           in case handled of
                Inl e \<Rightarrow> Inl e
              | Inr s2 \<Rightarrow>
                  (case check_room_transitions (doors s2) s2 player_pos of
                     Inl e \<Rightarrow> Inl e
                   | Inr (s3, player_pos') \<Rightarrow>
                       Inr (if int (fcard (rooms_cleared s3)) \<ge> total_rooms s3 \<and> \<not> teleporter_active s3
                            then s3\<lparr>teleporter_active := True\<rparr> else s3,
                            player_pos'))))"

text \<open>
  A level's life: before each tick some room ids may be taken out of \<open>rooms_cleared\<close>
  from outside (the hypothetical removal), then the tick runs. The trace lists
  \<open>teleporter_active\<close> before the first tick and after every tick; it ends at a tick that
  raises.
\<close>

record tick =
  removed :: "string fset"
  tick_dt :: real
  tick_player_pos :: Vector2
  tick_observation :: observation

fun teleporter_trace :: "MultiRoomSystem \<Rightarrow> tick list \<Rightarrow> bool list" where
  "teleporter_trace s [] = [teleporter_active s]"
| "teleporter_trace s (t # ts) =
     teleporter_active s #
       (case MultiRoomSystem_update (s\<lparr>rooms_cleared := rooms_cleared s |-| removed t\<rparr>)
               (tick_dt t) (tick_player_pos t) (tick_observation t) of
          Inl e \<Rightarrow> []
        | Inr (s', player_pos') \<Rightarrow> teleporter_trace s' ts)"

definition cleared_system :: MultiRoomSystem where
  "cleared_system = (MultiRoomSystem_init 1)\<lparr>rooms_cleared := {|''room_1'', ''room_2'', ''hazard_room''|},
     current_room_id := ''hazard_room''\<rparr>"

definition quiet_tick :: "string fset \<Rightarrow> tick" where
  "quiet_tick gone = \<lparr>removed = gone, tick_dt = 0.016, tick_player_pos = Vector2_init 84 160,
     tick_observation = \<lparr>challenge_complete_seen = False, enemies_seen = 1, enemies_placed = 0\<rparr>\<rparr>"


section \<open>Door animation\<close>

lemma Door_init_invariant:
  "0 \<le> open_speed (Door_init a b dir) \<and> 0 \<le> open_progress (Door_init a b dir)
   \<and> open_progress (Door_init a b dir) \<le> 1"
  by (simp add: Door_init_def)

text \<open>
  C8: after \<open>Door.update\<close> with a non-negative \<open>dt\<close>, a progress that was in \<open>[0,1]\<close> is
  still in \<open>[0,1]\<close>; it has moved by at most \<open>open_speed * dt\<close>, toward 1 when a combatant
  is nearby and toward 0 otherwise; and \<open>is_open\<close> is exactly \<open>open_progress > 0.5\<close>.
  The speed is the constructor's 3.0 and no update changes it, and the constructor starts
  the progress at 0, so the two conditions on the door hold for every door the program
  builds and are kept by every update.
\<close>

theorem Door_update_progress:
  assumes "0 \<le> dt" and "0 \<le> open_speed d"
    and "0 \<le> open_progress d" and "open_progress d \<le> 1"
  shows "0 \<le> open_progress (Door_update d dt nearby)
       \<and> open_progress (Door_update d dt nearby) \<le> 1
       \<and> (nearby \<longrightarrow> open_progress d \<le> open_progress (Door_update d dt nearby)
              \<and> open_progress (Door_update d dt nearby) \<le> open_progress d + open_speed d * dt)
       \<and> (\<not> nearby \<longrightarrow> open_progress d - open_speed d * dt \<le> open_progress (Door_update d dt nearby)
              \<and> open_progress (Door_update d dt nearby) \<le> open_progress d)
       \<and> is_open (Door_update d dt nearby) = (open_progress (Door_update d dt nearby) > 0.5)
       \<and> open_speed (Door_update d dt nearby) = open_speed d"
proof -
  have step: "0 \<le> open_speed d * dt"
    using assms(1,2) by simp
  show ?thesis
    using step assms(3,4) by (cases nearby) (auto simp: Door_update_def Let_def)
qed

theorem Door_update_progress_witness:
  "(0::real) \<le> 0.1 \<and> 0 \<le> open_speed example_door
   \<and> 0 \<le> open_progress example_door \<and> open_progress example_door \<le> 1
   \<and> open_progress (Door_update example_door 0.1 True) = 0.7
   \<and> is_open (Door_update example_door 0.1 True)"
proof -
  have h: "(0::real) \<le> 0.1" "0 \<le> open_speed example_door"
    "0 \<le> open_progress example_door" "open_progress example_door \<le> 1"
    by (simp_all add: example_door_def Door_init_def)
  have v: "open_progress (Door_update example_door 0.1 True) = 0.7"
    by (simp add: example_door_def Door_init_def Door_update_def Let_def)
  from Door_update_progress [OF h, of True] v h show ?thesis
    by simp
qed

section \<open>Firing without ammunition\<close>

text \<open>
  C9: \<open>Gun.fire\<close> on a gun whose ammo is 0 returns the empty list and leaves the gun as
  it was (so \<open>fire_timer\<close> and \<open>ammo\<close> keep their values); it does not raise.
\<close>

theorem fire_no_ammo:
  assumes "ammo g = 0"
  shows "fire g a b angle rnd = Inr ([], g)"
  using assms by (simp add: fire_def can_fire_def)

theorem fire_no_ammo_witness:
  "ammo example_gun = 0 \<and> fire example_gun 10 20 0 (\<lambda>i. 0.5) = Inr ([], example_gun)"
proof -
  have h: "ammo example_gun = 0"
    by (simp add: example_gun_def)
  from fire_no_ammo [OF h] h show ?thesis
    by simp
qed

section \<open>Armor\<close>

text \<open>
  C10: \<open>Player.take_damage\<close> on a player who is not invulnerable and has armor left
  takes one armor point and nothing from health, whatever the amount, and makes the
  player invulnerable with the damage-flash timer set to 0.6.
\<close>

theorem take_damage_armor:
  assumes "\<not> invulnerable p" and "armor p > 0"
  shows "fst (take_damage p amount) = True
       \<and> armor (snd (take_damage p amount)) = armor p - 1
       \<and> Player.health (snd (take_damage p amount)) = Player.health p
       \<and> invulnerable (snd (take_damage p amount))
       \<and> damage_flash_timer (snd (take_damage p amount)) = 0.6
       \<and> snd (take_damage p amount)
           = p\<lparr>armor := armor p - 1, invulnerable := True, damage_flash_timer := 0.6\<rparr>"
  using assms by (simp add: take_damage_def)

theorem take_damage_armor_witness:
  "\<not> invulnerable example_player \<and> armor example_player > 0
   \<and> armor (snd (take_damage example_player 1000)) = 1
   \<and> Player.health (snd (take_damage example_player 1000)) = 100
   \<and> invulnerable (snd (take_damage example_player 1000))"
proof -
  have h: "\<not> invulnerable example_player" "armor example_player > 0"
    by (simp_all add: example_player_def)
  from take_damage_armor [OF h, of 1000] h show ?thesis
    by (simp add: example_player_def)
qed


section \<open>Line of sight\<close>

lemma round_half_even_int: "round_half_even (real_of_int z) = z"
  by (simp add: round_half_even_def)

lemma fl_eval:
  assumes lo: "2 ^ 52 \<le> \<bar>x\<bar> * 2 ^ k" and hi: "\<bar>x\<bar> * 2 ^ k < 2 ^ 53"
  shows "fl x = real_of_int (round_half_even (x * 2 ^ k)) / 2 ^ k"
proof -
  have x0: "x \<noteq> 0" using lo by auto
  then have xp: "0 < \<bar>x\<bar>" by simp
  have p: "2 powr (real_of_int (52 - int k)) = 2 ^ 52 / 2 ^ k"
    by (simp add: powr_diff powr_realpow)
  have p1: "2 powr (real_of_int (52 - int k) + 1) = 2 ^ 53 / 2 ^ k"
    by (simp add: powr_diff powr_add powr_realpow)
  have "2 powr (real_of_int (52 - int k)) \<le> \<bar>x\<bar> \<and> \<bar>x\<bar> < 2 powr (real_of_int (52 - int k) + 1)"
    unfolding p p1 using lo hi by (simp add: field_simps)
  then have e: "\<lfloor>log 2 \<bar>x\<bar>\<rfloor> = 52 - int k"
    using floor_log_eq_powr_iff [of "\<bar>x\<bar>" 2 "52 - int k"] xp by simp
  have u: "2 powr (- real k) = 1 / 2 ^ k"
    by (simp add: powr_minus_divide powr_realpow)
  show ?thesis
    using x0 by (simp add: fl_def Let_def e u)
qed

lemma fl_dyadic:
  assumes "\<bar>m\<bar> < 2 ^ 53"
  shows "fl (real_of_int m / 2 ^ j) = real_of_int m / 2 ^ j"
proof (cases "m = 0")
  case True
  then show ?thesis by (simp add: fl_def)
next
  case False
  define x where "x = real_of_int m / 2 ^ j"
  have x0: "x \<noteq> 0" using False by (simp add: x_def)
  define e where "e = \<lfloor>log 2 \<bar>x\<bar>\<rfloor>"
  have ax: "\<bar>x\<bar> = real_of_int \<bar>m\<bar> / 2 ^ j" by (simp add: x_def)
  have "real_of_int \<bar>m\<bar> < 2 ^ 53" using assms by (metis of_int_less_numeral_power_cancel_iff)
  then have "\<bar>x\<bar> < 2 ^ 53 / 2 ^ j" by (simp add: ax divide_strict_right_mono)
  also have "\<dots> = 2 powr (real_of_int (53 - int j))"
    by (simp add: powr_diff powr_realpow)
  finally have "log 2 \<bar>x\<bar> < real_of_int (53 - int j)"
    using x0 by (simp add: log_less_iff del: of_int_diff)
  then have "e < 53 - int j" unfolding e_def by (simp add: floor_less_iff del: of_int_diff)
  then have ej: "int j \<le> 52 - e" by simp
  define n where "n = nat (52 - e)"
  have n: "int n = 52 - e" "j \<le> n" using ej by (simp_all add: n_def)
  have u: "2 powr (real_of_int e - 52) = 1 / 2 ^ n"
  proof -
    have "real_of_int e - 52 = - real n" using n(1) by linarith
    then show ?thesis by (simp add: powr_minus_divide powr_realpow)
  qed
  define d where "d = n - j"
  have nd: "n = j + d" using n(2) by (simp add: d_def)
  have "x / (1 / 2 ^ n) = real_of_int m * 2 ^ d"
    by (simp add: x_def nd power_add)
  also have "\<dots> = real_of_int (m * 2 ^ d)" by simp
  finally have q: "x / (1 / 2 ^ n) = real_of_int (m * 2 ^ d)" .
  have "fl x = real_of_int (m * 2 ^ d) * (1 / 2 ^ n)"
    using x0 unfolding fl_def Let_def e_def [symmetric] u q round_half_even_int by simp
  also have "\<dots> = x"
    by (simp add: x_def nd power_add)
  finally show ?thesis by (simp add: x_def)
qed

lemma fl_int: "\<bar>m\<bar> < 2 ^ 53 \<Longrightarrow> fl (real_of_int m) = real_of_int m"
  using fl_dyadic [of m 0] by simp


lemma fl_zero: "fl 0 = 0"
  by (simp add: fl_def)


lemma fl_numeral: "(numeral w :: int) < 2 ^ 53 \<Longrightarrow> fl (numeral w) = numeral w"
  using fl_int [of "numeral w"] by simp


lemma fl_7_2: "fl (7 / 2) = 7 / 2"
  using fl_dyadic [of 7 1] by simp


lemma sqrt_784: "sqrt 784 = 28"
  by (rule real_sqrt_unique) simp_all








text \<open>
  The rounding decides: from \<open>(100,100)\<close> to \<open>(128,100)\<close> the step is the float
  \<open>28 * (1.0 / 3) = 9.333333333333332\<close>, the third sample is \<open>127.99999999999999\<close> in
  tile 7, not the player's \<open>128\<close> in tile 8, and a wall at tile \<open>(8,6)\<close> is not seen.
\<close>

lemma rounded_accumulation:
  "\<not> check_line_of_sight (Enemy_at 100 100) (Vector2_init 128 100) {(8, 6)}"
proof -
  define t :: real where "t = 6004799503160661 / 2 ^ 54"
  define sx :: real where "sx = 5254199565265578 / 2 ^ 49"
  define c1 :: real where "c1 = 7693649363424597 / 2 ^ 46"
  define c2 :: real where "c2 = 8350424309082794 / 2 ^ 46"
  define c3 :: real where "c3 = 9007199254740991 / 2 ^ 46"
  have third: "fl (1 / 3) = t"
    using fl_eval [of "1 / 3" 54] by (simp add: round_half_even_def t_def)
  have step: "fl (28 * t) = sx"
    using fl_eval [of "28 * t" 49] by (simp add: round_half_even_def t_def sx_def)
  have a1: "fl (100 + sx) = c1"
    using fl_eval [of "100 + sx" 46] by (simp add: round_half_even_def sx_def c1_def)
  have a2: "fl (c1 + sx) = c2"
    using fl_eval [of "c1 + sx" 46] by (simp add: round_half_even_def sx_def c1_def c2_def)
  have a3: "fl (c2 + sx) = c3"
    using fl_eval [of "c2 + sx" 46] by (simp add: round_half_even_def sx_def c2_def c3_def)
  have tiles: "\<lfloor>c1 / 16\<rfloor> = 6" "\<lfloor>c2 / 16\<rfloor> = 7" "\<lfloor>c3 / 16\<rfloor> = 7"
    by (simp_all add: c1_def c2_def c3_def)
  have dist: "distance_to_fl (sub_fl (Vector2_init 128 100) (Enemy.pos (Enemy_at 100 100)))
        (Vector2_init 0 0) = 28"
    by (simp add: distance_to_fl_def sub_fl_def Enemy_at_def Vector2_init_def fl_numeral fl_zero
        sqrt_784)
  have st: "py_int (fl (28 / 8)) = 3"
    by (simp add: fl_7_2 py_int_def)
  have sv: "mul_fl (sub_fl (Vector2_init 128 100) (Enemy.pos (Enemy_at 100 100)))
        (fl (1.0 / real_of_int 3)) = Vector2_init sx 0"
    by (simp add: mul_fl_def sub_fl_def Enemy_at_def Vector2_init_def fl_numeral fl_zero
        third step)
  have loop: "\<not> los_loop (Suc (Suc (Suc 0))) (Vector2_init 100 100) (Vector2_init sx 0) {(8, 6)}"
    by (simp add: add_fl_def Vector2_init_def tile_of_def Let_def a1 a2 a3 tiles fl_numeral)
  have n3: "nat 3 = Suc (Suc (Suc 0))" by simp
  have p: "Vector2_init (vec_x (Enemy.pos (Enemy_at 100 100))) (vec_y (Enemy.pos (Enemy_at 100 100)))
      = Vector2_init 100 100"
    by (simp add: Enemy_at_def Vector2_init_def)
  show ?thesis
    unfolding check_line_of_sight_def Let_def dist st sv n3 p
    using loop by simp
qed


section \<open>Detection boundary\<close>

text \<open>
  C7: an enemy whose distance to the player equals its \<open>detection_range\<close> is updated by
  the patrol branch: \<open>Enemy.update\<close> advances the two timers, runs \<open>patrol_behavior\<close>, and
  then moves the enemy and advances the fire timer. The line of sight is not evaluated.
\<close>

theorem Enemy_update_at_detection_range:
  assumes "distance_to (Enemy.pos e) player_pos = detection_range e"
  shows "Enemy_update e dt player_pos ws rnd =
     (let e2 = patrol_behavior (e\<lparr>state_timer := state_timer e + dt,
                   last_contact_damage := last_contact_damage e + dt\<rparr>) dt rnd
      in e2\<lparr>Enemy.pos := add (Enemy.pos e2) (mul (Enemy.velocity e2) dt),
            Enemy.fire_timer := Enemy.fire_timer e2 + dt\<rparr>)"
  using assms by (simp add: Enemy_update_def Let_def)

lemma sqrt_2500: "sqrt 2500 = 50"
  by (rule real_sqrt_unique) simp_all

theorem Enemy_update_at_detection_range_witness:
  "distance_to (Enemy.pos (Enemy_at 100 100)) (Vector2_init 280 100)
     = detection_range (Enemy_at 100 100)
   \<and> Enemy.velocity (Enemy_update (Enemy_at 100 100) 0.1 (Vector2_init 280 100) {} example_draws)
     = Vector2_init 10.8 (- 14.4)
   \<and> \<not> sight_blocked (Enemy_update (Enemy_at 100 100) 0.1 (Vector2_init 280 100) {} example_draws)"
proof -
  have h: "distance_to (Enemy.pos (Enemy_at 100 100)) (Vector2_init 280 100)
     = detection_range (Enemy_at 100 100)"
    by (simp add: distance_to_def Enemy_at_def Vector2_init_def)
  show ?thesis
    unfolding Enemy_update_at_detection_range [OF h]
    using h
    by (simp add: Let_def patrol_behavior_def Enemy_at_def Vector2_init_def distance_to_def
        sub_def mul_def add_def normalize_def sqrt_2500)
qed

section \<open>Tile push-out\<close>

lemma check_tile_no_wall:
  "(tile_x + dx, tile_y + dy) \<notin> ws \<Longrightarrow> check_tile ws p sz tile_x tile_y (dx, dy) acc = acc"
  by (simp add: check_tile_def split: prod.splits)

lemma check_tile_far:
  "sz / 2 + 8 \<le> distance_to (Vector2_init (real_of_int ((tile_x + dx) * 16 + 8))
        (real_of_int ((tile_y + dy) * 16 + 8))) p
   \<Longrightarrow> check_tile ws p sz tile_x tile_y (dx, dy) acc = acc"
  by (simp add: check_tile_def Let_def split: prod.splits)

lemma check_tile_hit:
  "(tile_x + dx, tile_y + dy) \<in> ws \<Longrightarrow>
   wd = distance_to (Vector2_init (real_of_int ((tile_x + dx) * 16 + 8))
        (real_of_int ((tile_y + dy) * 16 + 8))) p \<Longrightarrow>
   wd < sz / 2 + 8 \<Longrightarrow> 0.1 < wd \<Longrightarrow>
   check_tile ws p sz tile_x tile_y (dx, dy) (push_x, push_y, n) =
     (push_x + vec_x (normalize (sub p (Vector2_init (real_of_int ((tile_x + dx) * 16 + 8))
        (real_of_int ((tile_y + dy) * 16 + 8))))) * (sz / 2 + 8 - wd + 1),
      push_y + vec_y (normalize (sub p (Vector2_init (real_of_int ((tile_x + dx) * 16 + 8))
        (real_of_int ((tile_y + dy) * 16 + 8))))) * (sz / 2 + 8 - wd + 1),
      n + 1)"
  by (simp add: check_tile_def Let_def)


lemma scan_first: "scan_walls {(5, 5), (6, 5)} (Vector2_init 89 88) 8 = (12, 0, 1)"
  by (simp add: scan_walls_def neighbourhood_def Vector2_init_def check_tile_no_wall
      check_tile_far check_tile_hit [where wd = 1] distance_to_def normalize_def sub_def)

lemma scan_second: "scan_walls {(5, 5), (6, 5)} (Vector2_init 101 88) 8 = (- 10, 0, 1)"
  by (simp add: scan_walls_def neighbourhood_def Vector2_init_def check_tile_no_wall
      check_tile_far check_tile_hit [where wd = 3] distance_to_def normalize_def sub_def)

lemma validate_first:
  "validate_position two_wall_room (Vector2_init 89 88) 8 = Vector2_init 101 88"
  by (simp add: validate_position_def two_wall_room_def example_room_def
      scan_first [unfolded Vector2_init_def] Vector2_init_def clamp_to_room_def)

lemma validate_second:
  "validate_position two_wall_room (Vector2_init 101 88) 8 = Vector2_init 91 88"
  by (simp add: validate_position_def two_wall_room_def example_room_def
      scan_second [unfolded Vector2_init_def] Vector2_init_def clamp_to_room_def)

text \<open>
  C3: the resolver is not idempotent. In a room with the two adjacent wall tiles \<open>(5,5)\<close>
  and \<open>(6,5)\<close>, an entity of size 8 at \<open>(89,88)\<close> is pushed by the first call to
  \<open>(101,88)\<close>, which lies inside the wall tile \<open>(6,5)\<close>; the second call, with no movement
  in between, pushes it back to \<open>(91,88)\<close>. The one averaged push of a call does not ensure
  what the method's docstring says (that the position is not inside walls).
\<close>

theorem validate_position_second_call_moves:
  "validate_position two_wall_room (Vector2_init 89 88) 8 = Vector2_init 101 88
   \<and> tile_of (Vector2_init 101 88) \<in> walls two_wall_room
   \<and> validate_position two_wall_room (Vector2_init 101 88) 8 = Vector2_init 91 88
   \<and> validate_position two_wall_room (validate_position two_wall_room (Vector2_init 89 88) 8) 8
       \<noteq> validate_position two_wall_room (Vector2_init 89 88) 8"
proof -
  have tile: "tile_of (Vector2_init 101 88) \<in> walls two_wall_room"
    by (simp add: tile_of_def Vector2_init_def two_wall_room_def)
  have diff: "Vector2_init 91 88 \<noteq> Vector2_init 101 88"
    by (simp add: Vector2_init_def)
  from tile diff show ?thesis
    by (simp add: validate_first validate_second)
qed


section \<open>Enemy separation\<close>

lemma scan_no_wall:
  assumes "\<forall>dx \<in> {- 1, 0, 1}. \<forall>dy \<in> {- 1, 0, 1}.
             (\<lfloor>vec_x p / 16\<rfloor> + dx, \<lfloor>vec_y p / 16\<rfloor> + dy) \<notin> ws"
  shows "scan_walls ws p sz = (0, 0, 0)"
  using assms by (simp add: scan_walls_def neighbourhood_def check_tile_no_wall Let_def)

lemma validate_clear:
  assumes "32 \<le> vec_x p" "vec_x p < 368" "32 \<le> vec_y p" "vec_y p < 288"
  shows "validate_position example_room p 8 = p"
proof -
  define tx where "tx = \<lfloor>vec_x p / 16\<rfloor>"
  define ty where "ty = \<lfloor>vec_y p / 16\<rfloor>"
  have fx: "2 \<le> tx" "tx \<le> 22"
    using assms(1,2) by (simp_all add: tx_def le_floor_iff floor_le_iff)
  have fy: "2 \<le> ty" "ty \<le> 17"
    using assms(3,4) by (simp_all add: ty_def le_floor_iff floor_le_iff)
  have "\<forall>dx \<in> {- 1, 0, 1}. \<forall>dy \<in> {- 1, 0, 1}. (tx + dx, ty + dy) \<notin> perimeter_walls 25 20"
    using fx fy by (simp add: perimeter_walls_def)
  then have "scan_walls (perimeter_walls 25 20) p 8 = (0, 0, 0)"
    unfolding tx_def ty_def by (rule scan_no_wall)
  then show ?thesis
    using assms
    by (simp add: validate_position_def example_room_def clamp_to_room_def)
qed

lemma separation_inner_length: "length (separation_inner r i js es) = length es"
  by (induction js arbitrary: es) (auto split: prod.splits)

lemma separation_inner_fold:
  "separation_inner r i js es = fold (pair_step r) (map (\<lambda>j. (i, j)) js) es"
  by (induction js arbitrary: es) (auto simp: pair_step_def split: prod.splits)

lemma separation_outer_fold:
  "length es = n \<Longrightarrow>
   fold (\<lambda>i es'. separation_inner r i [Suc i ..< length es'] es') is es
     = fold (pair_step r) (concat (map (\<lambda>i. map (\<lambda>j. (i, j)) [Suc i ..< n]) is)) es"
proof (induction "is" arbitrary: es)
  case Nil
  show ?case by simp
next
  case (Cons i "is")
  have "length (separation_inner r i [Suc i ..< n] es) = n"
    using Cons.prems by (simp add: separation_inner_length)
  from Cons.IH [OF this] Cons.prems show ?case
    by (simp add: separation_inner_fold)
qed

lemma enemy_separation_fold:
  "enemy_separation r es = fold (pair_step r) (index_pairs (length es)) es"
  unfolding enemy_separation_def index_pairs_def
  by (rule separation_outer_fold) simp


lemma pushed_distance:
  fixes a b d q :: real
  assumes d: "d = sqrt (a\<^sup>2 + b\<^sup>2)" and "0 < d" and "0 \<le> q"
  shows "sqrt ((a + 2 * (a / d * q))\<^sup>2 + (b + 2 * (b / d * q))\<^sup>2) = d + 2 * q"
proof -
  define k where "k = 1 + 2 * q / d"
  have k: "0 < k" using assms by (simp add: k_def add_pos_nonneg)
  have "a + 2 * (a / d * q) = a * k" "b + 2 * (b / d * q) = b * k"
    by (simp_all add: k_def algebra_simps)
  then have "sqrt ((a + 2 * (a / d * q))\<^sup>2 + (b + 2 * (b / d * q))\<^sup>2)
       = sqrt (k\<^sup>2 * (a\<^sup>2 + b\<^sup>2))"
    by (simp add: power_mult_distrib algebra_simps)
  also have "\<dots> = k * d"
    using k by (simp add: real_sqrt_mult d)
  also have "\<dots> = d + 2 * q"
    using \<open>0 < d\<close> by (simp add: k_def algebra_simps)
  finally show ?thesis .
qed

lemma separate_pair_push:
  assumes "0.1 < distance_to (Enemy.pos e1) (Enemy.pos e2)"
    and "distance_to (Enemy.pos e1) (Enemy.pos e2) < (Enemy.size e1 + Enemy.size e2) / 2 + 5"
  shows "separate_pair r e1 e2
       = (validate_enemy_position r (e1\<lparr>Enemy.pos := add (Enemy.pos e1)
            (mul (normalize (sub (Enemy.pos e1) (Enemy.pos e2)))
               (((Enemy.size e1 + Enemy.size e2) / 2 + 5
                  - distance_to (Enemy.pos e1) (Enemy.pos e2)) / 4))\<rparr>),
          validate_enemy_position r (e2\<lparr>Enemy.pos := sub (Enemy.pos e2)
            (mul (normalize (sub (Enemy.pos e1) (Enemy.pos e2)))
               (((Enemy.size e1 + Enemy.size e2) / 2 + 5
                  - distance_to (Enemy.pos e1) (Enemy.pos e2)) / 4))\<rparr>))"
proof -
  have quarter: "mul (mul n (x / 2)) (1 / 2) = mul n (x / 4)" for n x
    by (simp add: mul_def Vector2_init_def)
  show ?thesis
    using assms by (simp add: separate_pair_def Let_def quarter)
qed

lemma separate_pair_apart:
  "\<not> (0.1 < distance_to (Enemy.pos e1) (Enemy.pos e2)
       \<and> distance_to (Enemy.pos e1) (Enemy.pos e2) < (Enemy.size e1 + Enemy.size e2) / 2 + 5)
   \<Longrightarrow> separate_pair r e1 e2 = (e1, e2)"
  by (auto simp: separate_pair_def Let_def)

lemma pushed_pair_distance:
  assumes "0.1 < distance_to (Enemy.pos e1) (Enemy.pos e2)"
    and "distance_to (Enemy.pos e1) (Enemy.pos e2) < m"
  shows "distance_to
           (add (Enemy.pos e1) (mul (normalize (sub (Enemy.pos e1) (Enemy.pos e2)))
              ((m - distance_to (Enemy.pos e1) (Enemy.pos e2)) / 4)))
           (sub (Enemy.pos e2) (mul (normalize (sub (Enemy.pos e1) (Enemy.pos e2)))
              ((m - distance_to (Enemy.pos e1) (Enemy.pos e2)) / 4)))
         = (distance_to (Enemy.pos e1) (Enemy.pos e2) + m) / 2"
proof -
  define d where "d = distance_to (Enemy.pos e1) (Enemy.pos e2)"
  define n where "n = normalize (sub (Enemy.pos e1) (Enemy.pos e2))"
  have dpos: "0 < d" and dm: "d < m"
    using assms by (simp_all add: d_def)
  define a where "a = vec_x (Enemy.pos e1) - vec_x (Enemy.pos e2)"
  define b where "b = vec_y (Enemy.pos e1) - vec_y (Enemy.pos e2)"
  define q where "q = (m - d) / 4"
  have q0: "0 \<le> q" using dm by (simp add: q_def)
  have dab: "d = sqrt (a\<^sup>2 + b\<^sup>2)"
    by (simp add: d_def a_def b_def distance_to_def)
  have nx: "vec_x n = a / d" and ny: "vec_y n = b / d"
    using dpos by (simp_all add: n_def normalize_def sub_def Vector2_init_def Let_def
        a_def [symmetric] b_def [symmetric] dab [symmetric])
  have px: "vec_x (add (Enemy.pos e1) (mul n q)) - vec_x (sub (Enemy.pos e2) (mul n q))
       = a + 2 * (a / d * q)"
    by (simp add: add_def sub_def mul_def Vector2_init_def nx a_def)
  have py: "vec_y (add (Enemy.pos e1) (mul n q)) - vec_y (sub (Enemy.pos e2) (mul n q))
       = b + 2 * (b / d * q)"
    by (simp add: add_def sub_def mul_def Vector2_init_def ny b_def)
  have "distance_to (add (Enemy.pos e1) (mul n q)) (sub (Enemy.pos e2) (mul n q))
      = sqrt ((a + 2 * (a / d * q))\<^sup>2 + (b + 2 * (b / d * q))\<^sup>2)"
    unfolding distance_to_def px py ..
  also have "\<dots> = d + 2 * q"
    using dab dpos q0 by (rule pushed_distance)
  also have "\<dots> = (d + m) / 2"
    by (simp add: q_def field_simps)
  finally show ?thesis
    by (simp add: q_def d_def n_def)
qed

text \<open>
  C1 (as the code has it): one pass of the separation step is the loop body applied to
  the index pairs \<open>i < j\<close> in order, each pair at the positions the earlier pair steps left.
  For a pair whose distance then is below \<open>min_distance = (size1 + size2) / 2 + 5\<close> and
  above 0.1, the body moves each enemy along the connecting normal by a quarter of the
  penetration \<open>min_distance - distance\<close> and runs the tile push-out on both; before the
  push-out the two are \<open>(distance + min_distance) / 2\<close> apart. Any other pair is left as it
  is. In a room holding just the two enemies, that is their distance after the pass when
  the push-out leaves both where they are: two enemies of size 8 placed 2 apart, clear of
  walls, end the pass 7.5 apart.
\<close>

theorem enemy_separation_pairs:
  "enemy_separation r es = fold (pair_step r) (index_pairs (length es)) es
   \<and> (let d = distance_to (Enemy.pos e1) (Enemy.pos e2);
           min_distance = (Enemy.size e1 + Enemy.size e2) / 2 + 5;
           n = normalize (sub (Enemy.pos e1) (Enemy.pos e2));
           q = (min_distance - d) / 4;
           p1 = add (Enemy.pos e1) (mul n q);
           p2 = sub (Enemy.pos e2) (mul n q)
       in (0.1 < d \<and> d < min_distance \<longrightarrow>
             separate_pair r e1 e2
               = (validate_enemy_position r (e1\<lparr>Enemy.pos := p1\<rparr>),
                  validate_enemy_position r (e2\<lparr>Enemy.pos := p2\<rparr>))
             \<and> distance_to p1 p2 = (d + min_distance) / 2)
          \<and> (\<not> (0.1 < d \<and> d < min_distance) \<longrightarrow> separate_pair r e1 e2 = (e1, e2))
          \<and> (0.1 < d \<and> d < min_distance
                \<and> validate_position r p1 (Enemy.size e1) = p1
                \<and> validate_position r p2 (Enemy.size e2) = p2 \<longrightarrow>
              distance_to (Enemy.pos (enemy_separation r [e1, e2] ! 0))
                          (Enemy.pos (enemy_separation r [e1, e2] ! 1))
                = (d + min_distance) / 2))"
proof -
  have two: "enemy_separation r [e1, e2]
      = [fst (separate_pair r e1 e2), snd (separate_pair r e1 e2)]"
    by (simp add: enemy_separation_def split: prod.splits)
  show ?thesis
    unfolding Let_def
    using enemy_separation_fold [of r es] separate_pair_push [of e1 e2 r]
      separate_pair_apart [of e1 e2 r]
      pushed_pair_distance [of e1 e2 "(Enemy.size e1 + Enemy.size e2) / 2 + 5"]
    by (auto simp: two validate_enemy_position_def)
qed


lemma separate_pair_line:
  assumes "Enemy.pos A = Vector2_init xa 100" "Enemy.pos B = Vector2_init xb 100"
    and "Enemy.size A = 8" "Enemy.size B = 8"
    and "0.1 < xb - xa" "xb - xa < 13"
    and "32 \<le> xa - (13 - (xb - xa)) / 4" "xb + (13 - (xb - xa)) / 4 < 368"
  shows "separate_pair example_room A B
       = (A\<lparr>Enemy.pos := Vector2_init (xa - (13 - (xb - xa)) / 4) 100\<rparr>,
          B\<lparr>Enemy.pos := Vector2_init (xb + (13 - (xb - xa)) / 4) 100\<rparr>)"
proof -
  define q where "q = (13 - (xb - xa)) / 4"
  define ya where "ya = xa - q"
  define yb where "yb = xb + q"
  have lt: "xa < xb" using assms(5) by simp
  have q0: "0 \<le> q" using assms(6) by (simp add: q_def)
  have d: "distance_to (Enemy.pos A) (Enemy.pos B) = xb - xa"
    using lt by (simp add: distance_to_def assms(1,2) Vector2_init_def)
  have n: "normalize (sub (Enemy.pos A) (Enemy.pos B)) = Vector2_init (- 1) 0"
    using lt by (simp add: normalize_def sub_def assms(1,2) Vector2_init_def Let_def
        divide_eq_minus_1_iff)
  have p1: "add (Enemy.pos A) (mul (Vector2_init (- 1) 0) q) = Vector2_init ya 100"
    by (simp add: add_def mul_def assms(1) Vector2_init_def ya_def)
  have p2: "sub (Enemy.pos B) (mul (Vector2_init (- 1) 0) q) = Vector2_init yb 100"
    by (simp add: sub_def mul_def assms(2) Vector2_init_def yb_def)
  have b1: "32 \<le> ya \<and> ya < 368 \<and> 32 \<le> yb \<and> yb < 368"
    using assms(6,7,8) lt unfolding ya_def yb_def q_def by argo
  have v1: "validate_position example_room (Vector2_init ya 100) 8 = Vector2_init ya 100"
    using b1 by (intro validate_clear) (simp_all add: Vector2_init_def)
  have v2: "validate_position example_room (Vector2_init yb 100) 8 = Vector2_init yb 100"
    using b1 by (intro validate_clear) (simp_all add: Vector2_init_def)
  have h1: "0.1 < distance_to (Enemy.pos A) (Enemy.pos B)"
    and h2: "distance_to (Enemy.pos A) (Enemy.pos B) < (Enemy.size A + Enemy.size B) / 2 + 5"
    using assms(5,6) by (simp_all add: d assms(3,4))
  have m: "((Enemy.size A + Enemy.size B) / 2 + 5 - (xb - xa)) / 4 = q"
    by (simp add: assms(3,4) q_def)
  have "separate_pair example_room A B
       = (A\<lparr>Enemy.pos := Vector2_init ya 100\<rparr>, B\<lparr>Enemy.pos := Vector2_init yb 100\<rparr>)"
    unfolding separate_pair_push [OF h1 h2] d n m p1 p2 validate_enemy_position_def
    by (simp add: v1 v2 assms(3,4))
  then show ?thesis
    by (simp add: ya_def yb_def q_def)
qed

lemma example_pair_distance:
  "distance_to (Enemy.pos (Enemy_at 100 100)) (Enemy.pos (Enemy_at 102 100)) = 2"
  by (simp add: distance_to_def Enemy_at_def Vector2_init_def)

lemma example_pair_step:
  "separate_pair example_room (Enemy_at 100 100) (Enemy_at 102 100)
     = ((Enemy_at 100 100)\<lparr>Enemy.pos := Vector2_init (389 / 4) 100\<rparr>,
        (Enemy_at 102 100)\<lparr>Enemy.pos := Vector2_init (419 / 4) 100\<rparr>)"
  using separate_pair_line [of "Enemy_at 100 100" 100 "Enemy_at 102 100" 102]
  by (simp add: Enemy_at_def)

text \<open>
  With a third enemy the later pair steps move the first two again: from \<open>x = 100, 102,
  104\<close> the pass ends at \<open>95.6875, 101.703125, 108.609375\<close>.
\<close>

lemma three_enemy_pass:
  "map Enemy.pos (enemy_separation example_room [Enemy_at 100 100, Enemy_at 102 100, Enemy_at 104 100])
     = [Vector2_init (1531 / 16) 100, Vector2_init (6509 / 64) 100, Vector2_init (6951 / 64) 100]"
proof -
  have ip: "index_pairs (Suc (Suc (Suc 0)))
      = [(0, Suc 0), (0, Suc (Suc 0)), (Suc 0, Suc (Suc 0))]"
    by (simp add: index_pairs_def)
  have s1: "separate_pair example_room (Enemy_at 100 100) (Enemy_at 102 100)
     = ((Enemy_at 100 100)\<lparr>Enemy.pos := Vector2_init (389 / 4) 100\<rparr>,
        (Enemy_at 102 100)\<lparr>Enemy.pos := Vector2_init (419 / 4) 100\<rparr>)"
    by (rule example_pair_step)
  have s2: "separate_pair example_room ((Enemy_at 100 100)\<lparr>Enemy.pos := Vector2_init (389 / 4) 100\<rparr>)
        (Enemy_at 104 100)
     = ((Enemy_at 100 100)\<lparr>Enemy.pos := Vector2_init (1531 / 16) 100\<rparr>,
        (Enemy_at 104 100)\<lparr>Enemy.pos := Vector2_init (1689 / 16) 100\<rparr>)"
    using separate_pair_line [of "(Enemy_at 100 100)\<lparr>Enemy.pos := Vector2_init (389 / 4) 100\<rparr>"
        "389 / 4" "Enemy_at 104 100" 104]
    by (simp add: Enemy_at_def)
  have s3: "separate_pair example_room ((Enemy_at 102 100)\<lparr>Enemy.pos := Vector2_init (419 / 4) 100\<rparr>)
        ((Enemy_at 104 100)\<lparr>Enemy.pos := Vector2_init (1689 / 16) 100\<rparr>)
     = ((Enemy_at 102 100)\<lparr>Enemy.pos := Vector2_init (6509 / 64) 100\<rparr>,
        (Enemy_at 104 100)\<lparr>Enemy.pos := Vector2_init (6951 / 64) 100\<rparr>)"
    using separate_pair_line [of "(Enemy_at 102 100)\<lparr>Enemy.pos := Vector2_init (419 / 4) 100\<rparr>"
        "419 / 4" "(Enemy_at 104 100)\<lparr>Enemy.pos := Vector2_init (1689 / 16) 100\<rparr>" "1689 / 16"]
    by (simp add: Enemy_at_def)
  show ?thesis
    by (simp add: enemy_separation_fold ip pair_step_def s1 s2 s3)
qed

theorem enemy_separation_pairs_witness:
  "0.1 < distance_to (Enemy.pos (Enemy_at 100 100)) (Enemy.pos (Enemy_at 102 100))
   \<and> distance_to (Enemy.pos (Enemy_at 100 100)) (Enemy.pos (Enemy_at 102 100))
       < (Enemy.size (Enemy_at 100 100) + Enemy.size (Enemy_at 102 100)) / 2 + 5
   \<and> map Enemy.pos (enemy_separation example_room [Enemy_at 100 100, Enemy_at 102 100])
       = [Vector2_init (389 / 4) 100, Vector2_init (419 / 4) 100]
   \<and> distance_to
        (Enemy.pos (enemy_separation example_room [Enemy_at 100 100, Enemy_at 102 100] ! 0))
        (Enemy.pos (enemy_separation example_room [Enemy_at 100 100, Enemy_at 102 100] ! 1))
       = 15 / 2"
proof -
  have h1: "0.1 < distance_to (Enemy.pos (Enemy_at 100 100)) (Enemy.pos (Enemy_at 102 100))"
    by (simp add: example_pair_distance)
  have sz: "Enemy.size (Enemy_at 100 100) = 8" "Enemy.size (Enemy_at 102 100) = 8"
    by (simp_all add: Enemy_at_def)
  have h2: "distance_to (Enemy.pos (Enemy_at 100 100)) (Enemy.pos (Enemy_at 102 100))
       < (Enemy.size (Enemy_at 100 100) + Enemy.size (Enemy_at 102 100)) / 2 + 5"
    by (simp add: example_pair_distance sz)
  have n: "normalize (sub (Enemy.pos (Enemy_at 100 100)) (Enemy.pos (Enemy_at 102 100)))
       = Vector2_init (- 1) 0"
    by (simp add: normalize_def sub_def Enemy_at_def Vector2_init_def)
  have p1: "add (Enemy.pos (Enemy_at 100 100)) (mul (Vector2_init (- 1) 0) (11 / 4))
       = Vector2_init (389 / 4) 100"
    by (simp add: add_def mul_def Enemy_at_def Vector2_init_def)
  have p2: "sub (Enemy.pos (Enemy_at 102 100)) (mul (Vector2_init (- 1) 0) (11 / 4))
       = Vector2_init (419 / 4) 100"
    by (simp add: sub_def mul_def Enemy_at_def Vector2_init_def)
  have v1: "validate_position example_room (Vector2_init (389 / 4) 100) 8 = Vector2_init (389 / 4) 100"
    by (rule validate_clear) (simp_all add: Vector2_init_def)
  have v2: "validate_position example_room (Vector2_init (419 / 4) 100) 8 = Vector2_init (419 / 4) 100"
    by (rule validate_clear) (simp_all add: Vector2_init_def)
  have dist: "distance_to
        (Enemy.pos (enemy_separation example_room [Enemy_at 100 100, Enemy_at 102 100] ! 0))
        (Enemy.pos (enemy_separation example_room [Enemy_at 100 100, Enemy_at 102 100] ! 1))
       = 15 / 2"
    using enemy_separation_pairs [of example_room "[Enemy_at 100 100, Enemy_at 102 100]"
        "Enemy_at 100 100" "Enemy_at 102 100", THEN conjunct2] h1 h2
    unfolding Let_def example_pair_distance n sz
    by (simp add: p1 p2 v1 v2)
  have two: "map Enemy.pos (enemy_separation example_room [Enemy_at 100 100, Enemy_at 102 100])
      = [Vector2_init (389 / 4) 100, Vector2_init (419 / 4) 100]"
    by (simp add: enemy_separation_def example_pair_step)
  from h1 h2 two dist show ?thesis
    by blast
qed

text \<open>
  C1 as stated fails: two enemies of size 8 placed 2 units apart in an empty room are
  7.5 units apart after the pass, not 13.
\<close>

theorem enemy_separation_13_counterexample:
  "Enemy.size (Enemy_at 100 100) = 8 \<and> Enemy.size (Enemy_at 102 100) = 8
   \<and> distance_to (Enemy.pos (Enemy_at 100 100)) (Enemy.pos (Enemy_at 102 100)) = 2
   \<and> \<not> 13 \<le> distance_to
         (Enemy.pos (enemy_separation example_room [Enemy_at 100 100, Enemy_at 102 100] ! 0))
         (Enemy.pos (enemy_separation example_room [Enemy_at 100 100, Enemy_at 102 100] ! 1))"
proof -
  have sz: "Enemy.size (Enemy_at 100 100) = 8" "Enemy.size (Enemy_at 102 100) = 8"
    by (simp_all add: Enemy_at_def)
  have two: "enemy_separation example_room [Enemy_at 100 100, Enemy_at 102 100]
      = [(Enemy_at 100 100)\<lparr>Enemy.pos := Vector2_init (389 / 4) 100\<rparr>,
         (Enemy_at 102 100)\<lparr>Enemy.pos := Vector2_init (419 / 4) 100\<rparr>]"
    by (simp add: enemy_separation_def example_pair_step)
  have "distance_to (Vector2_init (389 / 4) 100) (Vector2_init (419 / 4) 100) = 15 / 2"
    by (simp add: distance_to_def Vector2_init_def)
  then show ?thesis
    by (simp add: two sz example_pair_distance)
qed


section \<open>Ditches\<close>

text \<open>
  C2 (as the code has it): a player whose tile is in the hazard room's \<open>ditches\<close> and who
  is neither dodging nor invulnerable has health exactly 0 after one call of
  \<open>check_hazard_damage\<close>, which returns true.
\<close>

theorem check_hazard_damage_ditch:
  assumes "(\<lfloor>vec_x (Player.pos p) / 16\<rfloor>, \<lfloor>vec_y (Player.pos p) / 16\<rfloor>) \<in> ditches h"
    and "\<not> is_dodging p" and "\<not> invulnerable p"
  shows "fst (check_hazard_damage h p) = True
       \<and> Player.health (snd (check_hazard_damage h p)) = 0
       \<and> snd (check_hazard_damage h p) = p\<lparr>Player.health := 0\<rparr>"
  using assms by (simp add: check_hazard_damage_def Let_def)

theorem check_hazard_damage_ditch_witness:
  "(\<lfloor>vec_x (Player.pos (example_player\<lparr>Player.pos := Vector2_init 100 100\<rparr>)) / 16\<rfloor>,
    \<lfloor>vec_y (Player.pos (example_player\<lparr>Player.pos := Vector2_init 100 100\<rparr>)) / 16\<rfloor>)
      \<in> ditches example_hazard_room
   \<and> \<not> is_dodging (example_player\<lparr>Player.pos := Vector2_init 100 100\<rparr>)
   \<and> \<not> invulnerable (example_player\<lparr>Player.pos := Vector2_init 100 100\<rparr>)
   \<and> Player.health (snd (check_hazard_damage example_hazard_room
         (example_player\<lparr>Player.pos := Vector2_init 100 100\<rparr>))) = 0"
proof -
  have h: "(\<lfloor>vec_x (Player.pos (example_player\<lparr>Player.pos := Vector2_init 100 100\<rparr>)) / 16\<rfloor>,
    \<lfloor>vec_y (Player.pos (example_player\<lparr>Player.pos := Vector2_init 100 100\<rparr>)) / 16\<rfloor>)
      \<in> ditches example_hazard_room"
    "\<not> is_dodging (example_player\<lparr>Player.pos := Vector2_init 100 100\<rparr>)"
    "\<not> invulnerable (example_player\<lparr>Player.pos := Vector2_init 100 100\<rparr>)"
    by (simp_all add: example_player_def example_hazard_room_def Vector2_init_def)
  from check_hazard_damage_ditch [OF h] h show ?thesis
    by simp
qed

text \<open>
  C2 as stated fails: a player on a ditch tile who is not dodging but is invulnerable
  (as after a recent hit) keeps all health.
\<close>

theorem check_hazard_damage_invulnerable_counterexample:
  "(\<lfloor>vec_x (Player.pos (example_player\<lparr>Player.pos := Vector2_init 100 100, invulnerable := True\<rparr>)) / 16\<rfloor>,
    \<lfloor>vec_y (Player.pos (example_player\<lparr>Player.pos := Vector2_init 100 100, invulnerable := True\<rparr>)) / 16\<rfloor>)
      \<in> ditches example_hazard_room
   \<and> \<not> is_dodging (example_player\<lparr>Player.pos := Vector2_init 100 100, invulnerable := True\<rparr>)
   \<and> Player.health (snd (check_hazard_damage example_hazard_room
         (example_player\<lparr>Player.pos := Vector2_init 100 100, invulnerable := True\<rparr>))) \<noteq> 0"
  by (simp add: check_hazard_damage_def example_player_def example_hazard_room_def
      Vector2_init_def)


section \<open>A bullet is consumed by its first hit\<close>

lemma Enemy_take_damage_dead:
  "fst (Enemy_take_damage e amount) \<longleftrightarrow> Enemy.health e \<le> amount"
  by (auto simp: Enemy_take_damage_def Let_def)

lemma Enemy_take_damage_alive:
  "\<not> Enemy.health e \<le> amount \<Longrightarrow>
   snd (Enemy_take_damage e amount) = e\<lparr>Enemy.health := Enemy.health e - amount\<rparr>"
  by (simp add: Enemy_take_damage_def Let_def max_def)

lemma resolve_hit_enemies:
  "enemies (room (resolve_hit reward b i s)) =
     (if Enemy.health (enemies (room s) ! i) \<le> Bullet.damage b
      then take i (enemies (room s)) @ drop (Suc i) (enemies (room s))
      else (enemies (room s))[i := (enemies (room s) ! i)
              \<lparr>Enemy.health := Enemy.health (enemies (room s) ! i) - Bullet.damage b\<rparr>])"
  using Enemy_take_damage_dead [of "enemies (room s) ! i" "Bullet.damage b"]
    Enemy_take_damage_alive [of "enemies (room s) ! i" "Bullet.damage b"]
  by (cases "Enemy_take_damage (enemies (room s) ! i) (Bullet.damage b)")
     (simp add: resolve_hit_def Let_def)

lemma resolve_hit_bullets:
  "player_bullets (room (resolve_hit reward b i s)) = remove1 b (player_bullets (room s))"
  by (cases "Enemy_take_damage (enemies (room s) ! i) (Bullet.damage b)")
     (simp add: resolve_hit_def Let_def remove1_idem)

lemma bullet_vs_enemies_first_hit:
  "(bullet_vs_enemies reward b xs i s = s \<and> (\<forall>e \<in> set xs. \<not> bullet_hits b e))
   \<or> (\<exists>j < length xs. bullet_hits b (xs ! j) \<and> (\<forall>k < j. \<not> bullet_hits b (xs ! k))
         \<and> bullet_vs_enemies reward b xs i s = resolve_hit reward b (i + j) s)"
proof (induction xs arbitrary: i)
  case Nil
  show ?case by simp
next
  case (Cons x xs)
  show ?case
  proof (cases "bullet_hits b x")
    case True
    then have "0 < length (x # xs) \<and> bullet_hits b ((x # xs) ! 0)
        \<and> (\<forall>k < 0. \<not> bullet_hits b ((x # xs) ! k))
        \<and> bullet_vs_enemies reward b (x # xs) i s = resolve_hit reward b (i + 0) s"
      by simp
    then show ?thesis by blast
  next
    case False
    from Cons.IH [of "Suc i"] show ?thesis
    proof
      assume "bullet_vs_enemies reward b xs (Suc i) s = s \<and> (\<forall>e \<in> set xs. \<not> bullet_hits b e)"
      with False show ?thesis by simp
    next
      assume "\<exists>j < length xs. bullet_hits b (xs ! j) \<and> (\<forall>k < j. \<not> bullet_hits b (xs ! k))
         \<and> bullet_vs_enemies reward b xs (Suc i) s = resolve_hit reward b (Suc i + j) s"
      then obtain j where j: "j < length xs" "bullet_hits b (xs ! j)"
        "\<forall>k < j. \<not> bullet_hits b (xs ! k)"
        "bullet_vs_enemies reward b xs (Suc i) s = resolve_hit reward b (Suc i + j) s"
        by blast
      have "\<forall>k < Suc j. \<not> bullet_hits b ((x # xs) ! k)"
        using False j(3) by (auto simp: nth_Cons split: nat.splits)
      with j False have "Suc j < length (x # xs) \<and> bullet_hits b ((x # xs) ! Suc j)
        \<and> (\<forall>k < Suc j. \<not> bullet_hits b ((x # xs) ! k))
        \<and> bullet_vs_enemies reward b (x # xs) i s = resolve_hit reward b (i + Suc j) s"
        by simp
      then show ?thesis by blast
    qed
  qed
qed

lemma sum_list_health_split:
  "j < length es \<Longrightarrow>
   sum_list (map Enemy.health es)
     = sum_list (map Enemy.health (take j es)) + Enemy.health (es ! j)
       + sum_list (map Enemy.health (drop (Suc j) es))"
proof -
  assume "j < length es"
  then have "es = take j es @ es ! j # drop (Suc j) es"
    by (rule id_take_nth_drop)
  then have "sum_list (map Enemy.health es)
      = sum_list (map Enemy.health (take j es @ es ! j # drop (Suc j) es))"
    by simp
  then show ?thesis by simp
qed

lemma resolve_hit_health:
  assumes "j < length (enemies (room s))"
  shows "total_health s - total_health (resolve_hit reward b j s) \<le> Bullet.damage b"
  using assms sum_list_health_split [OF assms]
  by (simp add: total_health_def resolve_hit_enemies upd_conv_take_nth_drop)

lemma resolve_hit_damage:
  assumes "b \<in> set (player_bullets (room s))"
  shows "total_damage s - total_damage (resolve_hit reward b j s) = Bullet.damage b"
  using sum_list_map_remove1 [OF assms, of Bullet.damage]
  by (simp add: total_damage_def resolve_hit_bullets)

lemma bullet_vs_enemies_account:
  assumes "b \<in> set (player_bullets (room s))"
  shows "total_health s - total_health (bullet_vs_enemies reward b (enemies (room s)) 0 s)
           \<le> total_damage s - total_damage (bullet_vs_enemies reward b (enemies (room s)) 0 s)
       \<and> (player_bullets (room (bullet_vs_enemies reward b (enemies (room s)) 0 s))
             = player_bullets (room s)
          \<or> player_bullets (room (bullet_vs_enemies reward b (enemies (room s)) 0 s))
             = remove1 b (player_bullets (room s)))"
  using bullet_vs_enemies_first_hit [of reward b "enemies (room s)" 0 s]
proof
  assume "bullet_vs_enemies reward b (enemies (room s)) 0 s = s
      \<and> (\<forall>e \<in> set (enemies (room s)). \<not> bullet_hits b e)"
  then show ?thesis by simp
next
  assume "\<exists>j < length (enemies (room s)). bullet_hits b (enemies (room s) ! j)
      \<and> (\<forall>k < j. \<not> bullet_hits b (enemies (room s) ! k))
      \<and> bullet_vs_enemies reward b (enemies (room s)) 0 s = resolve_hit reward b (0 + j) s"
  then obtain j where j: "j < length (enemies (room s))"
    and eq: "bullet_vs_enemies reward b (enemies (room s)) 0 s = resolve_hit reward b j s"
    by auto
  show ?thesis
    using resolve_hit_health [OF j, of reward b] resolve_hit_damage [OF assms, of reward j]
    by (simp add: eq resolve_hit_bullets)
qed

lemma player_bullets_loop_account:
  assumes "mset bl \<subseteq># mset (player_bullets (room s))"
  shows "total_health s - total_health (player_bullets_loop rnd bl k s)
           \<le> total_damage s - total_damage (player_bullets_loop rnd bl k s)
       \<and> mset (player_bullets (room (player_bullets_loop rnd bl k s)))
           \<subseteq># mset (player_bullets (room s))"
  using assms
proof (induction bl arbitrary: k s)
  case Nil
  show ?case by simp
next
  case (Cons b bl)
  define s1 where "s1 = bullet_vs_enemies (rnd k) b (enemies (room s)) 0 s"
  from Cons.prems have bin: "b \<in> set (player_bullets (room s))"
    by (metis list.set_intros(1) mset_subset_eqD set_mset_mset)
  from bullet_vs_enemies_account [OF bin, of "rnd k"]
  have acc: "total_health s - total_health s1 \<le> total_damage s - total_damage s1"
    and pb: "player_bullets (room s1) = player_bullets (room s)
           \<or> player_bullets (room s1) = remove1 b (player_bullets (room s))"
    by (simp_all add: s1_def)
  have rest: "mset bl \<subseteq># mset (player_bullets (room s1))"
    and sub: "mset (player_bullets (room s1)) \<subseteq># mset (player_bullets (room s))"
    using pb
  proof -
    have le: "mset bl \<subseteq># mset (player_bullets (room s)) - {#b#}"
      using Cons.prems by (simp add: insert_subset_eq_iff)
    from pb show "mset bl \<subseteq># mset (player_bullets (room s1))"
    proof
      assume "player_bullets (room s1) = player_bullets (room s)"
      with le show ?thesis by (metis diff_subset_eq_self subset_mset.order_trans)
    next
      assume "player_bullets (room s1) = remove1 b (player_bullets (room s))"
      with le show ?thesis by simp
    qed
    from pb show "mset (player_bullets (room s1)) \<subseteq># mset (player_bullets (room s))"
      by auto
  qed
  from Cons.IH [OF rest, of "Suc k"]
  have "total_health s1 - total_health (player_bullets_loop rnd bl (Suc k) s1)
           \<le> total_damage s1 - total_damage (player_bullets_loop rnd bl (Suc k) s1)"
    and "mset (player_bullets (room (player_bullets_loop rnd bl (Suc k) s1)))
           \<subseteq># mset (player_bullets (room s1))"
    by simp_all
  with acc sub show ?case
    by (simp add: s1_def [symmetric])
qed


text \<open>
  C4: in the first loop of \<open>Room.check_collisions\<close> a player bullet either hits no enemy
  and changes nothing, or it is resolved against the first enemy it hits and no other:
  that enemy alone loses health (or is removed when the damage reaches its health), every
  other enemy is as before, and the bullet is taken out of \<open>player_bullets\<close>. Over the
  whole loop the health lost by the enemies is at most the damage of the bullets that
  were removed, and no bullet is added.
\<close>

theorem player_bullet_hits_once:
  "(let es = enemies (room s); s' = bullet_vs_enemies reward b es 0 s
    in (s' = s \<and> (\<forall>e \<in> set es. \<not> bullet_hits b e))
       \<or> (\<exists>j < length es. bullet_hits b (es ! j) \<and> (\<forall>k < j. \<not> bullet_hits b (es ! k))
             \<and> enemies (room s') =
                 (if Enemy.health (es ! j) \<le> Bullet.damage b
                  then take j es @ drop (Suc j) es
                  else es[j := (es ! j)\<lparr>Enemy.health := Enemy.health (es ! j) - Bullet.damage b\<rparr>])
             \<and> player_bullets (room s') = remove1 b (player_bullets (room s))))
   \<and> (let t' = player_bullets_vs_enemies rnd t
       in total_health t - total_health t' \<le> total_damage t - total_damage t'
          \<and> mset (player_bullets (room t')) \<subseteq># mset (player_bullets (room t)))"
proof -
  have one: "(bullet_vs_enemies reward b (enemies (room s)) 0 s = s
        \<and> (\<forall>e \<in> set (enemies (room s)). \<not> bullet_hits b e))
     \<or> (\<exists>j < length (enemies (room s)). bullet_hits b (enemies (room s) ! j)
          \<and> (\<forall>k < j. \<not> bullet_hits b (enemies (room s) ! k))
          \<and> enemies (room (bullet_vs_enemies reward b (enemies (room s)) 0 s)) =
               (if Enemy.health (enemies (room s) ! j) \<le> Bullet.damage b
                then take j (enemies (room s)) @ drop (Suc j) (enemies (room s))
                else (enemies (room s))[j := (enemies (room s) ! j)
                   \<lparr>Enemy.health := Enemy.health (enemies (room s) ! j) - Bullet.damage b\<rparr>])
          \<and> player_bullets (room (bullet_vs_enemies reward b (enemies (room s)) 0 s))
               = remove1 b (player_bullets (room s)))"
    using bullet_vs_enemies_first_hit [of reward b "enemies (room s)" 0 s]
  proof
    assume "bullet_vs_enemies reward b (enemies (room s)) 0 s = s
        \<and> (\<forall>e \<in> set (enemies (room s)). \<not> bullet_hits b e)"
    then show ?thesis by blast
  next
    assume "\<exists>j < length (enemies (room s)). bullet_hits b (enemies (room s) ! j)
        \<and> (\<forall>k < j. \<not> bullet_hits b (enemies (room s) ! k))
        \<and> bullet_vs_enemies reward b (enemies (room s)) 0 s = resolve_hit reward b (0 + j) s"
    then obtain j where j: "j < length (enemies (room s))" "bullet_hits b (enemies (room s) ! j)"
      "\<forall>k < j. \<not> bullet_hits b (enemies (room s) ! k)"
      and eq: "bullet_vs_enemies reward b (enemies (room s)) 0 s = resolve_hit reward b j s"
      by auto
    show ?thesis
      unfolding eq resolve_hit_bullets resolve_hit_enemies using j by blast
  qed
  have all: "total_health t - total_health (player_bullets_vs_enemies rnd t)
        \<le> total_damage t - total_damage (player_bullets_vs_enemies rnd t)
      \<and> mset (player_bullets (room (player_bullets_vs_enemies rnd t)))
          \<subseteq># mset (player_bullets (room t))"
    unfolding player_bullets_vs_enemies_def
    by (rule player_bullets_loop_account) simp
  from one all show ?thesis
    by (simp add: Let_def)
qed

lemma example_collision_result:
  "map Enemy.health (enemies (room (player_bullets_vs_enemies (\<lambda>k. 5) example_collision))) = [22, 30]
   \<and> player_bullets (room (player_bullets_vs_enemies (\<lambda>k. 5) example_collision)) = []"
  by (simp add: player_bullets_vs_enemies_def example_collision_def example_room_def
      bullet_hits_def example_bullet_def Bullet_init_def Enemy_at_def Vector2_init_def
      distance_to_def resolve_hit_def Enemy_take_damage_def Let_def)

theorem player_bullet_hits_once_witness:
  "bullet_hits example_bullet (Enemy_at 100 100) \<and> bullet_hits example_bullet (Enemy_at 102 100)
   \<and> map Enemy.health (enemies (room (player_bullets_vs_enemies (\<lambda>k. 5) example_collision))) = [22, 30]
   \<and> player_bullets (room (player_bullets_vs_enemies (\<lambda>k. 5) example_collision)) = []
   \<and> total_health example_collision
        - total_health (player_bullets_vs_enemies (\<lambda>k. 5) example_collision)
      \<le> total_damage example_collision
        - total_damage (player_bullets_vs_enemies (\<lambda>k. 5) example_collision)"
proof -
  have hits: "bullet_hits example_bullet (Enemy_at 100 100)"
    "bullet_hits example_bullet (Enemy_at 102 100)"
    by (simp_all add: bullet_hits_def example_bullet_def Bullet_init_def Enemy_at_def
        Vector2_init_def distance_to_def)
  from player_bullet_hits_once [of example_collision 5 example_bullet "\<lambda>k. 5" example_collision]
  have "total_health example_collision
        - total_health (player_bullets_vs_enemies (\<lambda>k. 5) example_collision)
      \<le> total_damage example_collision
        - total_damage (player_bullets_vs_enemies (\<lambda>k. 5) example_collision)"
    by (simp add: Let_def)
  with hits example_collision_result show ?thesis
    by simp
qed


section \<open>The teleporter\<close>

lemma handle_enemy_waves_frame:
  "handle_enemy_waves s obs = Inr s' \<Longrightarrow>
   teleporter_active s' = teleporter_active s \<and> total_rooms s' = total_rooms s"
  by (auto simp: handle_enemy_waves_def Let_def split: if_splits option.splits)

lemma transition_to_room_frame:
  "transition_to_room s target p = (s', p') \<Longrightarrow>
   teleporter_active s' = teleporter_active s \<and> total_rooms s' = total_rooms s
   \<and> rooms_cleared s' = rooms_cleared s"
  by (auto simp: transition_to_room_def split: if_splits)

lemma check_room_transitions_frame:
  "check_room_transitions ds s p = Inr (s', p') \<Longrightarrow>
   teleporter_active s' = teleporter_active s \<and> total_rooms s' = total_rooms s
   \<and> rooms_cleared s' = rooms_cleared s"
proof (induction ds s p rule: check_room_transitions.induct)
  case (1 s player_pos)
  then show ?case by simp
next
  case (2 door_id door rest s player_pos)
  show ?case
  proof (cases "is_open door \<and>
      distance_to (Vector2_init (door_x door + real_of_int \<lfloor>Door.width door / 2\<rfloor>)
        (door_y door + real_of_int \<lfloor>Door.height door / 2\<rfloor>)) player_pos < 20")
    case False
    with 2 show ?thesis by (auto simp: Let_def split: if_splits)
  next
    case True
    then obtain target where tg: "door_target door_id (current_room_id s) = Inr target"
      using "2.prems" by (cases "door_target door_id (current_room_id s)") (auto simp: Let_def)
    show ?thesis
    proof (cases "target \<in> dom (rooms s)")
      case False
      with True tg 2 show ?thesis by (auto simp: Let_def)
    next
      case inr: True
      obtain s1 p1 where tr: "transition_to_room s target player_pos = (s1, p1)"
        by (cases "transition_to_room s target player_pos") auto
      from True tg inr tr "2.prems"
      have crt: "check_room_transitions rest s1 p1 = Inr (s', p')"
        by (auto simp: Let_def)
      from True have c1: "is_open door"
        and c2: "distance_to (Vector2_init (door_x door + real_of_int \<lfloor>Door.width door / 2\<rfloor>)
             (door_y door + real_of_int \<lfloor>Door.height door / 2\<rfloor>)) player_pos < 20"
        by simp_all
      from "2.IH"(1) [OF c1 refl refl c2 tg inr tr [symmetric] crt]
      have "teleporter_active s' = teleporter_active s1 \<and> total_rooms s' = total_rooms s1
          \<and> rooms_cleared s' = rooms_cleared s1" .
      with transition_to_room_frame [OF tr] show ?thesis by simp
    qed
  qed
qed


lemma MultiRoomSystem_update_step:
  assumes "MultiRoomSystem_update s dt p obs = Inr (s', p')"
  shows "total_rooms s' = total_rooms s
       \<and> (teleporter_active s' \<longleftrightarrow>
            teleporter_active s \<or> total_rooms s \<le> int (fcard (rooms_cleared s')))"
proof -
  obtain cls where cls: "rooms s (current_room_id s) = Some cls"
    using assms by (cases "rooms s (current_room_id s)") (auto simp: MultiRoomSystem_update_def)
  define s1 where "s1 = s\<lparr>doors := map (\<lambda>(door_id, door).
        (door_id, Door_update door dt (distance_to (Door.pos door) p < 50))) (doors s)\<rparr>"
  define handled where "handled =
     (if cls = HazardRoomClass then
        Inr (if challenge_complete_seen obs \<and> current_room_id s1 |\<notin>| rooms_cleared s1
             then s1\<lparr>rooms_cleared := finsert (current_room_id s1) (rooms_cleared s1)\<rparr>
             else s1)
      else if current_room_id s1 \<noteq> ''boss_room'' then handle_enemy_waves s1 obs
      else Inr s1)"
  have upd: "MultiRoomSystem_update s dt p obs =
     (case handled of
        Inl e \<Rightarrow> Inl e
      | Inr s2 \<Rightarrow>
          (case check_room_transitions (doors s2) s2 p of
             Inl e \<Rightarrow> Inl e
           | Inr (s3, player_pos') \<Rightarrow>
               Inr (if int (fcard (rooms_cleared s3)) \<ge> total_rooms s3 \<and> \<not> teleporter_active s3
                    then s3\<lparr>teleporter_active := True\<rparr> else s3,
                    player_pos')))"
    by (simp add: MultiRoomSystem_update_def cls Let_def s1_def handled_def)
  from assms upd obtain s2 where h: "handled = Inr s2"
    by (cases handled) auto
  from assms upd h obtain s3 where
    c: "check_room_transitions (doors s2) s2 p = Inr (s3, p')"
    and fin: "s' = (if int (fcard (rooms_cleared s3)) \<ge> total_rooms s3 \<and> \<not> teleporter_active s3
                    then s3\<lparr>teleporter_active := True\<rparr> else s3)"
    by (cases "check_room_transitions (doors s2) s2 p") auto
  have f1: "teleporter_active s1 = teleporter_active s \<and> total_rooms s1 = total_rooms s"
    by (simp add: s1_def)
  have f2: "teleporter_active s2 = teleporter_active s1 \<and> total_rooms s2 = total_rooms s1"
    using h handle_enemy_waves_frame [of s1 obs s2]
    by (auto simp: handled_def split: if_splits)
  from check_room_transitions_frame [OF c]
  have f3: "teleporter_active s3 = teleporter_active s2 \<and> total_rooms s3 = total_rooms s2"
    by simp
  show ?thesis
    using f1 f2 f3 by (auto simp: fin)
qed

lemma teleporter_trace_stays:
  "teleporter_active s \<Longrightarrow> b \<in> set (teleporter_trace s ts) \<Longrightarrow> b"
proof (induction ts arbitrary: s)
  case Nil
  then show ?case by simp
next
  case (Cons t ts)
  show ?case
  proof (cases "MultiRoomSystem_update (s\<lparr>rooms_cleared := rooms_cleared s |-| removed t\<rparr>)
                  (tick_dt t) (tick_player_pos t) (tick_observation t)")
    case (Inl e)
    with Cons.prems show ?thesis by simp
  next
    case (Inr r)
    obtain s' p' where r: "r = (s', p')" by (cases r) auto
    from MultiRoomSystem_update_step [OF Inr [unfolded r]] Cons.prems(1)
    have "teleporter_active s'" by simp
    with Cons.IH [of s'] Cons.prems Inr r show ?thesis by auto
  qed
qed

lemma teleporter_trace_mono:
  "i \<le> j \<Longrightarrow> j < length (teleporter_trace s ts) \<Longrightarrow> teleporter_trace s ts ! i
   \<Longrightarrow> teleporter_trace s ts ! j"
proof (induction ts arbitrary: s i j)
  case Nil
  then show ?case by simp
next
  case (Cons t ts)
  show ?case
  proof (cases i)
    case 0
    with Cons.prems have "teleporter_active s" by simp
    from teleporter_trace_stays [OF this] Cons.prems(2) show ?thesis
      using nth_mem by blast
  next
    case (Suc i')
    with Cons.prems obtain j' where j: "j = Suc j'" "i' \<le> j'"
      by (cases j) auto
    show ?thesis
    proof (cases "MultiRoomSystem_update (s\<lparr>rooms_cleared := rooms_cleared s |-| removed t\<rparr>)
                    (tick_dt t) (tick_player_pos t) (tick_observation t)")
      case (Inl e)
      with Cons.prems j show ?thesis by simp
    next
      case (Inr r)
      obtain s' p' where r: "r = (s', p')" by (cases r) auto
      from Cons.prems Suc j Inr r Cons.IH [of i' j' s'] show ?thesis by simp
    qed
  qed
qed

text \<open>
  C5: a tick of \<open>MultiRoomSystem.update\<close> that returns leaves \<open>total_rooms\<close> as it was, and
  \<open>teleporter_active\<close> is true after it exactly when it was true before or the size of
  \<open>rooms_cleared\<close> has reached \<open>total_rooms\<close>. So over a level's life, with room ids
  taken out of \<open>rooms_cleared\<close> between ticks at will, the flag never goes back to false
  once it is true: it changes from false to true at most once.
\<close>

theorem teleporter_active_once:
  "(MultiRoomSystem_update s dt p obs = Inr (s', p') \<longrightarrow>
      total_rooms s' = total_rooms s
      \<and> (teleporter_active s' \<longleftrightarrow>
            teleporter_active s \<or> total_rooms s \<le> int (fcard (rooms_cleared s'))))
   \<and> (\<forall>i j. i \<le> j \<and> j < length (teleporter_trace s0 ts) \<and> teleporter_trace s0 ts ! i
          \<longrightarrow> teleporter_trace s0 ts ! j)"
  using MultiRoomSystem_update_step [of s dt p obs s' p'] teleporter_trace_mono [of _ _ s0 ts]
  by blast

lemma quiet_update:
  "MultiRoomSystem_update (cleared_system\<lparr>rooms_cleared := cs, teleporter_active := act\<rparr>)
       (tick_dt (quiet_tick g)) (tick_player_pos (quiet_tick g)) (tick_observation (quiet_tick g))
     = Inr (cleared_system\<lparr>rooms_cleared := cs, teleporter_active := act \<or> 3 \<le> int (fcard cs)\<rparr>,
            Vector2_init 84 160)"
  by (auto simp: MultiRoomSystem_update_def cleared_system_def MultiRoomSystem_init_def
      room_configs_def generate_doors_def door_positions_def Door_init_def Door_update_def
      Vector2_init_def distance_to_def Let_def quiet_tick_def)

lemma quiet_step:
  "teleporter_trace (cleared_system\<lparr>rooms_cleared := cs, teleporter_active := act\<rparr>)
       (quiet_tick g # ts)
     = act # teleporter_trace (cleared_system\<lparr>rooms_cleared := cs |-| g,
                teleporter_active := act \<or> 3 \<le> int (fcard (cs |-| g))\<rparr>) ts"
proof -
  have st: "(cleared_system\<lparr>rooms_cleared := cs, teleporter_active := act\<rparr>)
        \<lparr>rooms_cleared := rooms_cleared (cleared_system\<lparr>rooms_cleared := cs, teleporter_active := act\<rparr>)
              |-| removed (quiet_tick g)\<rparr>
      = cleared_system\<lparr>rooms_cleared := cs |-| g, teleporter_active := act\<rparr>"
    by (simp add: quiet_tick_def)
  show ?thesis
    unfolding teleporter_trace.simps st quiet_update by simp
qed

lemma cleared_system_trace:
  "teleporter_trace cleared_system [quiet_tick {||}, quiet_tick {|''room_1''|}, quiet_tick {||}]
     = [False, True, True, True]"
proof -
  have s0: "cleared_system = cleared_system\<lparr>rooms_cleared := {|''room_1'', ''room_2'', ''hazard_room''|},
       teleporter_active := False\<rparr>"
    by (simp add: cleared_system_def MultiRoomSystem_init_def)
  have "teleporter_trace (cleared_system\<lparr>rooms_cleared := {|''room_1'', ''room_2'', ''hazard_room''|},
       teleporter_active := False\<rparr>)
          [quiet_tick {||}, quiet_tick {|''room_1''|}, quiet_tick {||}] = [False, True, True, True]"
    unfolding quiet_step by (simp add: fcard_finsert_if finsert_fminus_if)
  with s0 show ?thesis by simp
qed

theorem teleporter_active_once_witness:
  "total_rooms cleared_system = 3 \<and> fcard (rooms_cleared cleared_system) = 3
   \<and> \<not> teleporter_active cleared_system
   \<and> teleporter_trace cleared_system [quiet_tick {||}, quiet_tick {|''room_1''|}, quiet_tick {||}]
       = [False, True, True, True]
   \<and> MultiRoomSystem_update cleared_system (tick_dt (quiet_tick {||}))
         (tick_player_pos (quiet_tick {||})) (tick_observation (quiet_tick {||}))
       = Inr (cleared_system\<lparr>teleporter_active := True\<rparr>, Vector2_init 84 160)
   \<and> (teleporter_active (cleared_system\<lparr>teleporter_active := True\<rparr>) \<longleftrightarrow>
         teleporter_active cleared_system
         \<or> total_rooms cleared_system
             \<le> int (fcard (rooms_cleared (cleared_system\<lparr>teleporter_active := True\<rparr>))))"
proof -
  have c: "fcard (rooms_cleared cleared_system) = 3"
    by (simp add: cleared_system_def fcard_finsert_if)
  have t: "total_rooms cleared_system = 3" "\<not> teleporter_active cleared_system"
    by (simp_all add: cleared_system_def MultiRoomSystem_init_def)
  have s0: "cleared_system\<lparr>teleporter_active := False\<rparr> = cleared_system"
    by (simp add: cleared_system_def MultiRoomSystem_init_def)
  have u: "MultiRoomSystem_update cleared_system (tick_dt (quiet_tick {||}))
         (tick_player_pos (quiet_tick {||})) (tick_observation (quiet_tick {||}))
       = Inr (cleared_system\<lparr>teleporter_active := True\<rparr>, Vector2_init 84 160)"
    using quiet_update [where cs = "rooms_cleared cleared_system" and act = False and g = "{||}"] c
    by (simp add: s0)
  from teleporter_active_once [of cleared_system "tick_dt (quiet_tick {||})"
      "tick_player_pos (quiet_tick {||})" "tick_observation (quiet_tick {||})"
      "cleared_system\<lparr>teleporter_active := True\<rparr>" "Vector2_init 84 160"] u
  have "teleporter_active (cleared_system\<lparr>teleporter_active := True\<rparr>) \<longleftrightarrow>
         teleporter_active cleared_system
         \<or> total_rooms cleared_system
             \<le> int (fcard (rooms_cleared (cleared_system\<lparr>teleporter_active := True\<rparr>)))"
    by blast
  with c t u cleared_system_trace show ?thesis
    by blast
qed


end
